theory Spec2Isabelle
  imports Complex_Main "HOL-Library.Log_Nat" "HOL-Library.Multiset"
begin

section \<open>JavaScript strings\<close>

text \<open>
  The server (\<^verbatim>\<open>src/unnamed/part_009\<close>, lines 1 to 479) works on JavaScript strings. A string
  is modelled as a list of characters, each \<^typ>\<open>char\<close> standing for the UTF-16 code unit
  of the same number, U+0000 to U+00FF. On this range the library functions the matcher
  calls are the functions below: \<^verbatim>\<open>toLowerCase\<close> moves A to Z and the Latin-1 capitals
  (U+00C0 to U+00DE without the multiplication sign U+00D7) up by 32 and leaves every other
  code unit alone; the white space of \<^verbatim>\<open>\s\<close> and of \<^verbatim>\<open>trim\<close> is TAB, LF, VT, FF, CR,
  SPACE and NBSP.
\<close>

definition isWhiteSpace :: "char \<Rightarrow> bool" where
  "isWhiteSpace c = (of_char c \<in> {9, 10, 11, 12, 13, 32, 160 :: nat})"

definition isLowerAZ :: "char \<Rightarrow> bool" where
  "isLowerAZ c = (97 \<le> (of_char c :: nat) \<and> (of_char c :: nat) \<le> 122)"

definition isUpperAZ :: "char \<Rightarrow> bool" where
  "isUpperAZ c = (65 \<le> (of_char c :: nat) \<and> (of_char c :: nat) \<le> 90)"

definition isDigit :: "char \<Rightarrow> bool" where
  "isDigit c = (48 \<le> (of_char c :: nat) \<and> (of_char c :: nat) \<le> 57)"

definition lowerChar :: "char \<Rightarrow> char" where
  "lowerChar c =
     (let n = of_char c :: nat
      in if (65 \<le> n \<and> n \<le> 90) \<or> (192 \<le> n \<and> n \<le> 222 \<and> n \<noteq> 215)
         then char_of (n + 32) else c)"

definition toLowerCase :: "string \<Rightarrow> string" where
  "toLowerCase s = map lowerChar s"

text \<open>\<^verbatim>\<open>s.trim()\<close>: the white space at both ends goes.\<close>

definition String_trim :: "string \<Rightarrow> string" where
  "String_trim s = rev (dropWhile isWhiteSpace (rev (dropWhile isWhiteSpace s)))"

text \<open>
  \<^verbatim>\<open>s.split(',')\<close>, for a separator of one character: the pieces between the separators,
  in order, the empty ones too; the empty string gives one empty piece.
\<close>

fun String_split :: "char \<Rightarrow> string \<Rightarrow> string list" where
  "String_split sep [] = [[]]"
| "String_split sep (c # cs) =
     (if c = sep then [] # String_split sep cs
      else (case String_split sep cs of
              [] \<Rightarrow> [[c]]
            | t # ts \<Rightarrow> (c # t) # ts))"

text \<open>\<^verbatim>\<open>s.includes(t)\<close>: \<open>t\<close> occurs in \<open>s\<close> at some position, as a block.\<close>

definition startsWith :: "string \<Rightarrow> string \<Rightarrow> bool" where
  "startsWith s t = (take (length t) s = t)"

fun String_includes :: "string \<Rightarrow> string \<Rightarrow> bool" where
  "String_includes [] t = (t = [])"
| "String_includes (c # cs) t = (startsWith (c # cs) t \<or> String_includes cs t)"

text \<open>
  The two regular-expression replacements of \<^verbatim>\<open>normalize\<close> (line 58):
  \<^verbatim>\<open>replace(/[^a-z0-9\s,]/g, ' ')\<close> turns every character outside the class into one space,
  and \<^verbatim>\<open>replace(/\s+/g, ' ')\<close> turns every maximal run of white space into one space.
\<close>

definition inKeptClass :: "char \<Rightarrow> bool" where
  "inKeptClass c = (isLowerAZ c \<or> isDigit c \<or> isWhiteSpace c \<or> c = CHR '','')"

definition blankOthers :: "string \<Rightarrow> string" where
  "blankOthers s = map (\<lambda>c. if inKeptClass c then c else CHR '' '') s"

function collapseWhiteSpace :: "string \<Rightarrow> string" where
  "collapseWhiteSpace [] = []"
| "collapseWhiteSpace (c # cs) =
     (if isWhiteSpace c then CHR '' '' # collapseWhiteSpace (dropWhile isWhiteSpace cs)
      else c # collapseWhiteSpace cs)"
  by pat_completeness auto
termination
  by (relation "measure length") (auto simp: length_dropWhile_le less_Suc_eq_le)

definition normalizeText :: "string \<Rightarrow> string" where
  "normalizeText text = String_trim (collapseWhiteSpace (blankOthers (toLowerCase text)))"

section \<open>JavaScript numbers\<close>

text \<open>
  A JavaScript number is an IEEE 754 binary64 value. The score is computed from two array
  lengths, so only non-negative values far inside the normal range occur, and a number is
  modelled by the rational it denotes. Division and multiplication return the exact result
  rounded to the nearest value with a significand of 53 bits, ties to the even significand
  (\<open>binary64\<close>). \<^verbatim>\<open>Math.round\<close> returns the nearest integer, the larger one at a tie, and is
  exact.
\<close>

definition pow2 :: "int \<Rightarrow> rat" where
  "pow2 k = (if 0 \<le> k then 2 ^ nat k else 1 / 2 ^ nat (- k))"

definition ilog2 :: "rat \<Rightarrow> int" where
  "ilog2 x =
     (let (p, q) = quotient_of x; k = bitlen p - bitlen q
      in if pow2 k \<le> x then k else k - 1)"

definition roundTiesToEven :: "rat \<Rightarrow> int" where
  "roundTiesToEven r =
     (let f = \<lfloor>r\<rfloor>; d = r - of_int f
      in if d < 1 / 2 then f else if 1 / 2 < d then f + 1
         else if even f then f else f + 1)"

definition binary64 :: "rat \<Rightarrow> rat" where
  "binary64 x =
     (if x = 0 then 0
      else let u = pow2 (ilog2 x - 52) in of_int (roundTiesToEven (x / u)) * u)"

definition Number_div :: "rat \<Rightarrow> rat \<Rightarrow> rat" where
  "Number_div x y = binary64 (x / y)"

definition Number_mul :: "rat \<Rightarrow> rat \<Rightarrow> rat" where
  "Number_mul x y = binary64 (x * y)"

definition Math_round :: "rat \<Rightarrow> int" where
  "Math_round x = \<lfloor>x + 1 / 2\<rfloor>"

section \<open>The skill matcher\<close>

text \<open>\<^verbatim>\<open>matchResumeToJob\<close>, lines 57 to 86.\<close>

record matchResult =
  matchScore :: int
  matchedSkills :: "string list"
  missingSkills :: "string list"

text \<open>Lines 62 to 66: the required skills of a job's comma-separated skills string.\<close>

definition requiredSkills :: "string \<Rightarrow> string list" where
  "requiredSkills jobSkillsString =
     filter (\<lambda>skill. length skill > 0)
       (map (\<lambda>skill. String_trim skill)
          (String_split (CHR '','') (toLowerCase jobSkillsString)))"

text \<open>
  Lines 72 to 81: the \<^verbatim>\<open>forEach\<close> loop, which pushes each skill on one of the two arrays.
\<close>

fun forEach_skill ::
  "string \<Rightarrow> string list \<Rightarrow> string list \<times> string list \<Rightarrow> string list \<times> string list"
where
  "forEach_skill normalizedResume [] (matched, missing) = (matched, missing)"
| "forEach_skill normalizedResume (skill # rest) (matched, missing) =
     (if String_includes normalizedResume skill
      then forEach_skill normalizedResume rest (matched @ [skill], missing)
      else forEach_skill normalizedResume rest (matched, missing @ [skill]))"

definition matchResumeToJob :: "string \<Rightarrow> string \<Rightarrow> matchResult" where
  "matchResumeToJob resumeText jobSkillsString =
     (let normalizedResume = normalizeText resumeText;
          required = requiredSkills jobSkillsString
      in if length required = 0
         then \<lparr>matchScore = 100, matchedSkills = [], missingSkills = []\<rparr>
         else
           (let (matched, missing) = forEach_skill normalizedResume required ([], []);
                score = Math_round
                  (Number_mul
                     (Number_div (of_nat (length matched)) (of_nat (length required))) 100)
            in \<lparr>matchScore = score, matchedSkills = matched, missingSkills = missing\<rparr>))"

section \<open>The normalisation and the parsing as the specification words them\<close>

text \<open>
  The specification describes the normalised resume text by what it is: the text in lower
  case, with a space for every character that is not an ASCII letter, a digit, white space or
  a comma, with one space for every run of white space, and without white space at its two
  ends. The definitions below say this without the functions of the matcher. A run is
  collapsed by dropping every white-space character that another one follows and writing a
  space for the last one; trimming drops the white space in front, and then every character
  from which on there is white space only.
\<close>

definition spec_replace_symbols :: "string \<Rightarrow> string" where
  "spec_replace_symbols s =
     map (\<lambda>c. if isLowerAZ c \<or> isUpperAZ c \<or> isDigit c \<or> isWhiteSpace c \<or> c = CHR '',''
               then c else CHR '' '') s"

fun spec_collapse_runs :: "string \<Rightarrow> string" where
  "spec_collapse_runs [] = []"
| "spec_collapse_runs [c] = [if isWhiteSpace c then CHR '' '' else c]"
| "spec_collapse_runs (c # d # cs) =
     (if isWhiteSpace c \<and> isWhiteSpace d then spec_collapse_runs (d # cs)
      else (if isWhiteSpace c then CHR '' '' else c) # spec_collapse_runs (d # cs))"

fun spec_strip_leading :: "string \<Rightarrow> string" where
  "spec_strip_leading [] = []"
| "spec_strip_leading (c # cs) = (if isWhiteSpace c then spec_strip_leading cs else c # cs)"

fun spec_strip_trailing :: "string \<Rightarrow> string" where
  "spec_strip_trailing [] = []"
| "spec_strip_trailing (c # cs) =
     (if list_all isWhiteSpace (c # cs) then [] else c # spec_strip_trailing cs)"

definition spec_trim :: "string \<Rightarrow> string" where
  "spec_trim s = spec_strip_trailing (spec_strip_leading s)"

definition spec_normalize :: "string \<Rightarrow> string" where
  "spec_normalize text =
     spec_trim (spec_collapse_runs (spec_replace_symbols (toLowerCase text)))"

definition spec_contains :: "string \<Rightarrow> string \<Rightarrow> bool" where
  "spec_contains s t = (\<exists>u v. s = u @ t @ v)"

text \<open>
  The required skills in the specification's words: the string split on commas, each token
  trimmed and lower-cased, the empty ones dropped.
\<close>

definition spec_parse :: "string \<Rightarrow> string list" where
  "spec_parse requiredSkillsCsv =
     filter (\<lambda>token. token \<noteq> [])
       (map (\<lambda>token. toLowerCase (spec_trim token))
          (String_split (CHR '','') requiredSkillsCsv))"

text \<open>A skills string written from a list of tokens, with commas between them.\<close>

fun joinWithCommas :: "string list \<Rightarrow> string" where
  "joinWithCommas [] = []"
| "joinWithCommas [t] = t"
| "joinWithCommas (t # u # ts) = t @ CHR '','' # joinWithCommas (u # ts)"

section \<open>The document store and the responses\<close>

text \<open>
  A Firestore collection is a list of documents, each with its identifier, in the order a
  snapshot of the collection lists them; \<^verbatim>\<open>doc(id).get()\<close> is the lookup, and the
  document exists when the lookup finds it. The documents have the fields the server writes
  (lines 131 to 138 and 251 to 256) and reads; all the fields read are strings.
\<close>

record job =
  title :: string
  company :: string
  description :: string
  skills :: string

record resume =
  userId :: string
  resumeText :: string
  uploadedAt :: string
  filePath :: string

record user =
  email :: string
  role :: string

record db =
  jobs :: "(string \<times> job) list"
  resumes :: "(string \<times> resume) list"
  users :: "(string \<times> user) list"

record applicant =
  a_userId :: string
  a_email :: string
  a_matchScore :: int
  a_matchedSkills :: "string list"

text \<open>
  What \<^verbatim>\<open>JSON.parse\<close> returns. The server looks at one thing only, whether the value is an
  array.
\<close>

datatype json =
  JNull | JBool bool | JNumber rat | JString string
| JArray "json list" | JObject "(string \<times> json) list"

datatype body =
  Message string
| MatchBody matchResult
| ApplicantsBody "applicant list"
| TextBody string
| SuggestionsBody "json list"

type_synonym response = "nat \<times> body"

section \<open>Ranking the applicants of a job\<close>

text \<open>
  \<^verbatim>\<open>app.get('/api/applicants/:jobId')\<close>, lines 328 to 373. Lines 341 to 344 build
  \<^verbatim>\<open>usersMap\<close>; lines 348 to 363 are the loop over the resume documents.
\<close>

definition usersMap :: "(string \<times> user) list \<Rightarrow> (string \<rightharpoonup> user)" where
  "usersMap docs = foldl (\<lambda>acc doc. acc(fst doc \<mapsto> snd doc)) Map.empty docs"

fun forResumeDocs ::
  "(string \<rightharpoonup> user) \<Rightarrow> string \<Rightarrow> (string \<times> resume) list \<Rightarrow> applicant list \<Rightarrow> applicant list"
where
  "forResumeDocs um jobSkills [] applicantsList = applicantsList"
| "forResumeDocs um jobSkills (resumeDoc # rest) applicantsList =
     (case um (fst resumeDoc) of
        None \<Rightarrow> forResumeDocs um jobSkills rest applicantsList
      | Some userDetails \<Rightarrow>
          if role userDetails = ''Job Seeker''
          then
            (let matchResult = matchResumeToJob (resumeText (snd resumeDoc)) jobSkills
             in forResumeDocs um jobSkills rest
                  (applicantsList @
                     [\<lparr>a_userId = fst resumeDoc, a_email = email userDetails,
                       a_matchScore = matchScore matchResult,
                       a_matchedSkills = matchedSkills matchResult\<rparr>]))
          else forResumeDocs um jobSkills rest applicantsList)"

text \<open>
  Line 365: \<^verbatim>\<open>applicantsList.sort((a, b) => b.matchScore - a.matchScore)\<close>. ECMAScript
  (from the 2019 edition on) makes \<^verbatim>\<open>sort\<close> stable and, for a consistent comparator such
  as this one, the result sorted by it. An insertion sort stands for it here: an element goes
  before the first element it does not have to follow.
\<close>

definition compareFn :: "applicant \<Rightarrow> applicant \<Rightarrow> int" where
  "compareFn a b = a_matchScore b - a_matchScore a"

fun insertSorted :: "('a \<Rightarrow> 'a \<Rightarrow> int) \<Rightarrow> 'a \<Rightarrow> 'a list \<Rightarrow> 'a list" where
  "insertSorted cmp x [] = [x]"
| "insertSorted cmp x (y # ys) =
     (if cmp x y \<le> 0 then x # y # ys else y # insertSorted cmp x ys)"

definition Array_sort :: "('a \<Rightarrow> 'a \<Rightarrow> int) \<Rightarrow> 'a list \<Rightarrow> 'a list" where
  "Array_sort cmp xs = foldr (insertSorted cmp) xs []"

definition applicantsList_of :: "db \<Rightarrow> string \<Rightarrow> applicant list" where
  "applicantsList_of d jobSkills = forResumeDocs (usersMap (users d)) jobSkills (resumes d) []"

definition getApplicants :: "db \<Rightarrow> string \<Rightarrow> response" where
  "getApplicants d jobId =
     (case map_of (jobs d) jobId of
        None \<Rightarrow> (404, Message ''Job not found.'')
      | Some jobDoc \<Rightarrow>
          (let jobSkills = skills jobDoc;
               applicantsList = applicantsList_of d jobSkills
           in (200, ApplicantsBody (Array_sort compareFn applicantsList))))"

text \<open>\<^verbatim>\<open>app.get('/api/match/:jobId/:userId')\<close>, lines 302 to 326.\<close>

definition getMatch :: "db \<Rightarrow> string \<Rightarrow> string \<Rightarrow> response" where
  "getMatch d jobId uid =
     (case map_of (jobs d) jobId of
        None \<Rightarrow> (404, Message ''Job not found.'')
      | Some jobDoc \<Rightarrow>
          (case map_of (resumes d) uid of
             None \<Rightarrow> (404, Message ''Resume not found for this user.'')
           | Some resumeDoc \<Rightarrow>
               if resumeText resumeDoc = []
               then (404, Message ''Resume not found for this user.'')
               else (200, MatchBody (matchResumeToJob (resumeText resumeDoc) (skills jobDoc)))))"

section \<open>The AI content gateway\<close>

text \<open>
  What the server does not own: the API key and \<^verbatim>\<open>CANVAS_MODE\<close> of the process
  environment, the answer of the generative-language service, and \<^verbatim>\<open>JSON.parse\<close>.
  \<open>fetchCandidateText\<close> is lines 102 to 109 for a given system prompt and user query: the
  text of the first candidate of the service's answer, \<open>None\<close> when the request fails or
  the answer has no such field. \<open>JSON_parse\<close> is \<open>None\<close> where \<^verbatim>\<open>JSON.parse\<close> throws.
\<close>

record env =
  GEMINI_API_KEY :: string
  CANVAS_MODE :: "string option"
  fetchCandidateText :: "string \<Rightarrow> string \<Rightarrow> string option"
  JSON_parse :: "string \<Rightarrow> json option"

text \<open>
  A field of a request body is a string or absent. \<^verbatim>\<open>!x\<close> holds of an absent field and of
  the empty string; a template literal prints an absent field as \<^verbatim>\<open>undefined\<close>.
\<close>

definition falsy :: "string option \<Rightarrow> bool" where
  "falsy x = (case x of None \<Rightarrow> True | Some s \<Rightarrow> s = [])"

definition render :: "string option \<Rightarrow> string" where
  "render x = (case x of None \<Rightarrow> ''undefined'' | Some s \<Rightarrow> s)"

text \<open>
  \<^verbatim>\<open>generateGeminiContent\<close>, lines 92 to 116. Beside its result (the error message, or the
  text) it returns the requests it has sent to the service, each a pair of system prompt and
  user query.
\<close>

definition generateGeminiContent ::
  "env \<Rightarrow> string \<Rightarrow> string \<Rightarrow> (string + string) \<times> (string \<times> string) list"
where
  "generateGeminiContent e systemPrompt userQuery =
     (if GEMINI_API_KEY e = [] \<and> falsy (CANVAS_MODE e)
      then (Inl ''GEMINI_API_KEY is not set.'', [])
      else
        (case fetchCandidateText e systemPrompt userQuery of
           None \<Rightarrow>
             (Inl ''Gemini returned no text content or encountered an API error.'',
              [(systemPrompt, userQuery)])
         | Some text \<Rightarrow>
             if text = []
             then (Inl ''Gemini returned no text content or encountered an API error.'',
                   [(systemPrompt, userQuery)])
             else (Inr text, [(systemPrompt, userQuery)])))"

text \<open>\<^verbatim>\<open>app.post('/api/ai/coverletter')\<close>, lines 378 to 401.\<close>

definition coverletter_systemPrompt :: string where
  "coverletter_systemPrompt =
     ''You are a professional career coach and copywriter. Your task is to generate a '' @
     ''concise, single-page cover letter based on the provided resume and job details. '' @
     ''Focus only on the most relevant experience and skills that match the job description.''"

definition coverletter_userQuery ::
  "string \<Rightarrow> string option \<Rightarrow> string option \<Rightarrow> string option \<Rightarrow> string"
where
  "coverletter_userQuery text jobTitle jobDescription companyName =
     ''Using the following resume text, write a cover letter for the job titled \"'' @
     render jobTitle @ ''\" at \"'' @ render companyName @
     ''\". The job description is: \"'' @ render jobDescription @
     ''\". Resume Text: \"'' @ text @
     ''\". Only return the body of the letter, starting with the salutation and ending '' @
     ''with the closing.''"

definition postCoverletter ::
  "env \<Rightarrow> db \<Rightarrow> string option \<Rightarrow> string option \<Rightarrow> string option \<Rightarrow> string option
     \<Rightarrow> response \<times> (string \<times> string) list"
where
  "postCoverletter e d uid jobTitle jobDescription companyName =
     (if falsy uid then ((400, Message ''User ID is required.''), [])
      else
        (case map_of (resumes d) (the uid) of
           None \<Rightarrow>
             ((404, Message ''Please upload your resume first to generate a cover letter.''), [])
         | Some resumeDoc \<Rightarrow>
             if resumeText resumeDoc = []
             then ((404, Message ''Please upload your resume first to generate a cover letter.''),
                   [])
             else
               (case generateGeminiContent e coverletter_systemPrompt
                       (coverletter_userQuery (resumeText resumeDoc)
                          jobTitle jobDescription companyName) of
                  (Inl err, sent) \<Rightarrow>
                    ((500, Message ''Failed to generate cover letter via AI.''), sent)
                | (Inr letterText, sent) \<Rightarrow> ((200, TextBody letterText), sent))))"

text \<open>\<^verbatim>\<open>app.post('/api/ai/suggestions')\<close>, lines 405 to 447.\<close>

record listedJob =
  job_id :: string
  job_title :: string
  job_skills :: string

fun Array_join :: "string \<Rightarrow> string list \<Rightarrow> string" where
  "Array_join sep [] = []"
| "Array_join sep [x] = x"
| "Array_join sep (x # y # ys) = x @ sep @ Array_join sep (y # ys)"

definition suggestions_systemPrompt :: string where
  "suggestions_systemPrompt =
     ''You are a job recommendation engine. Analyze the Resume Text and the list of '' @
     ''available jobs. Select the top 3 job IDs that are the *best semantic fit* for the '' @
     ''candidate's experience. Return ONLY a JSON array of the recommended job IDs, using '' @
     ''the format: [\"ID_1\", \"ID_2\", \"ID_3\"].''"

definition suggestions_userQuery :: "string \<Rightarrow> listedJob list \<Rightarrow> string" where
  "suggestions_userQuery text allJobs =
     (let jobListString =
        Array_join ''; ''
          (map (\<lambda>job. ''ID: '' @ job_id job @ '', Title: '' @ job_title job @
                       '', Skills: '' @ job_skills job) allJobs)
      in ''Candidate Resume Text: \"'' @ text @
         ''\". Available Jobs (ID, Title, Skills): '' @ jobListString @ ''.'')"

definition postSuggestions ::
  "env \<Rightarrow> db \<Rightarrow> string option \<Rightarrow> listedJob list option
     \<Rightarrow> response \<times> (string \<times> string) list"
where
  "postSuggestions e d uid allJobs =
     (if falsy uid \<or> allJobs = None \<or> length (the allJobs) = 0
      then ((400, Message ''User ID and available jobs are required.''), [])
      else
        (case map_of (resumes d) (the uid) of
           None \<Rightarrow>
             ((404, Message
                 ''Please upload your resume first for personalized recommendations.''), [])
         | Some resumeDoc \<Rightarrow>
             if resumeText resumeDoc = []
             then ((404, Message
                      ''Please upload your resume first for personalized recommendations.''), [])
             else
               (case generateGeminiContent e suggestions_systemPrompt
                       (suggestions_userQuery (resumeText resumeDoc) (the allJobs)) of
                  (Inl err, sent) \<Rightarrow>
                    ((500, Message ''Failed to fetch suggestions via AI.''), sent)
                | (Inr jsonResponse, sent) \<Rightarrow>
                    (case JSON_parse e (String_trim jsonResponse) of
                       None \<Rightarrow> ((200, SuggestionsBody []), sent)
                     | Some (JArray recommendedIds) \<Rightarrow>
                         ((200, SuggestionsBody recommendedIds), sent)
                     | Some other \<Rightarrow> ((200, SuggestionsBody []), sent)))))"

text \<open>\<^verbatim>\<open>app.post('/api/ai/interview')\<close>, lines 450 to 473.\<close>

definition interview_systemPrompt :: string where
  "interview_systemPrompt =
     ''You are an expert HR interviewer. Your task is to generate 5 challenging and '' @
     ''specific behavioral interview questions (using the STAR method format) that are '' @
     ''tailored to the candidate's resume and the job requirements. Format the output as '' @
     ''a numbered list of questions, with no introductory text.''"

definition interview_userQuery :: "string \<Rightarrow> string option \<Rightarrow> string option \<Rightarrow> string" where
  "interview_userQuery text jobTitle jobDescription =
     ''Generate 5 behavioral interview questions for the job titled \"'' @ render jobTitle @
     ''\". The job description is: \"'' @ render jobDescription @
     ''\". The candidate's Resume Text is: \"'' @ text @ ''\".''"

definition postInterview ::
  "env \<Rightarrow> db \<Rightarrow> string option \<Rightarrow> string option \<Rightarrow> string option
     \<Rightarrow> response \<times> (string \<times> string) list"
where
  "postInterview e d uid jobTitle jobDescription =
     (if falsy uid then ((400, Message ''User ID is required.''), [])
      else
        (case map_of (resumes d) (the uid) of
           None \<Rightarrow>
             ((404, Message
                 ''Please upload your resume first to generate interview questions.''), [])
         | Some resumeDoc \<Rightarrow>
             if resumeText resumeDoc = []
             then ((404, Message
                      ''Please upload your resume first to generate interview questions.''), [])
             else
               (case generateGeminiContent e interview_systemPrompt
                       (interview_userQuery (resumeText resumeDoc) jobTitle jobDescription) of
                  (Inl err, sent) \<Rightarrow>
                    ((500, Message ''Failed to generate interview questions via AI.''), sent)
                | (Inr questionsText, sent) \<Rightarrow> ((200, TextBody questionsText), sent))))"

section \<open>Uploading a resume: the extraction of its text\<close>

text \<open>
  \<^verbatim>\<open>app.post('/api/resumes/upload')\<close>, lines 211 to 269. A buffer is a list of bytes, each a
  \<^typ>\<open>char\<close>. The two parsers and the decoder of \<^verbatim>\<open>Buffer.toString('utf-8')\<close> belong to
  libraries; a parser returns the text or throws an error with a message (\<open>Inl\<close>).
\<close>

record library =
  pdf_parse :: "string \<Rightarrow> string + string"
  mammoth_extractRawText :: "string \<Rightarrow> string + string"
  toString_utf8 :: "string \<Rightarrow> string"

record uploadedFile =
  path :: string
  mimetype :: string
  fileBytes :: string

datatype error = UnsupportedFormat | ExtractionFailed | ParserError string

fun message :: "error \<Rightarrow> string" where
  "message UnsupportedFormat = ''Unsupported file type. Please use PDF, DOCX, or TXT.''"
| "message ExtractionFailed =
     ''Could not extract text from the document. Please ensure the file is not corrupted.''"
| "message (ParserError m) = m"

text \<open>Lines 245 to 247: the text must have a character that is not white space.\<close>

definition requireText :: "string \<Rightarrow> error + string" where
  "requireText text = (if String_trim text = [] then Inl ExtractionFailed else Inr text)"

text \<open>Lines 222 to 247: the parsing chosen by the media type, then the check.\<close>

definition extractText :: "library \<Rightarrow> string \<Rightarrow> string \<Rightarrow> error + string" where
  "extractText lib fileMimeType dataBuffer =
     (if fileMimeType = ''application/pdf''
      then (case pdf_parse lib dataBuffer of
              Inl m \<Rightarrow> Inl (ParserError m)
            | Inr text \<Rightarrow> requireText text)
      else if fileMimeType =
                ''application/vnd.openxmlformats-officedocument.wordprocessingml.document''
      then (case mammoth_extractRawText lib dataBuffer of
              Inl m \<Rightarrow> Inl (ParserError m)
            | Inr text \<Rightarrow> requireText text)
      else if fileMimeType = ''text/plain''
      then requireText (toString_utf8 lib dataBuffer)
      else Inl UnsupportedFormat)"

text \<open>
  \<^verbatim>\<open>docRef.set(..., { merge: true })\<close> writes the four fields of the resume document of the
  user, which is created when it is not there.
\<close>

fun setDoc :: "string \<Rightarrow> 'a \<Rightarrow> (string \<times> 'a) list \<Rightarrow> (string \<times> 'a) list" where
  "setDoc k v [] = [(k, v)]"
| "setDoc k v (doc # docs) = (if fst doc = k then (k, v) # docs else doc # setDoc k v docs)"

text \<open>
  The handler returns the response, the store, and the paths of the files it has removed.
  \<open>now\<close> is \<^verbatim>\<open>new Date().toISOString()\<close>.
\<close>

definition postUpload ::
  "library \<Rightarrow> string \<Rightarrow> db \<Rightarrow> string option \<Rightarrow> uploadedFile option
     \<Rightarrow> response \<times> db \<times> string list"
where
  "postUpload lib now d uid file =
     (if falsy uid \<or> file = None
      then ((400, Message ''User ID or file is missing.''), d, [])
      else
        (let f = the file in
         case extractText lib (mimetype f) (fileBytes f) of
           Inl err \<Rightarrow>
             ((500, Message (''Processing failed: '' @ message err)), d, [path f])
         | Inr text \<Rightarrow>
             ((200, Message ''Resume uploaded and processed successfully.''),
              d\<lparr>resumes :=
                   setDoc (the uid)
                     \<lparr>userId = the uid, resumeText = text, uploadedAt = now,
                      filePath = path f\<rparr>
                     (resumes d)\<rparr>,
              [])))"

section \<open>Eligible candidates\<close>

text \<open>
  The candidates the loop of lines 348 to 363 keeps, and the entry it pushes for each: a
  resume document is eligible when \<^verbatim>\<open>usersMap\<close> has a user under its identifier and that
  user's role is \<^verbatim>\<open>Job Seeker\<close>.
\<close>

definition eligible :: "(string \<rightharpoonup> user) \<Rightarrow> string \<times> resume \<Rightarrow> bool" where
  "eligible um resumeDoc =
     (case um (fst resumeDoc) of None \<Rightarrow> False | Some userDetails \<Rightarrow> role userDetails = ''Job Seeker'')"

definition applicantOf :: "(string \<rightharpoonup> user) \<Rightarrow> string \<Rightarrow> string \<times> resume \<Rightarrow> applicant" where
  "applicantOf um jobSkills resumeDoc =
     \<lparr>a_userId = fst resumeDoc,
      a_email = (case um (fst resumeDoc) of None \<Rightarrow> [] | Some userDetails \<Rightarrow> email userDetails),
      a_matchScore = matchScore (matchResumeToJob (resumeText (snd resumeDoc)) jobSkills),
      a_matchedSkills = matchedSkills (matchResumeToJob (resumeText (snd resumeDoc)) jobSkills)\<rparr>"

definition byScoreDescending :: "applicant list \<Rightarrow> bool" where
  "byScoreDescending xs = sorted_wrt (\<lambda>a b. a_matchScore b \<le> a_matchScore a) xs"

definition withScore :: "int \<Rightarrow> applicant list \<Rightarrow> applicant list" where
  "withScore s xs = filter (\<lambda>a. a_matchScore a = s) xs"

section \<open>Example inputs\<close>

text \<open>A job with forty different skills, and a resume that has twenty-three of them.\<close>

definition skills40 :: string where
  "skills40 = ''a,b,c,d,e,f,g,h,i,j,k,l,m,n,o,p,q,r,s,t,u,v,w,x,y,z,0,1,2,3,4,5,6,7,8,9,xx,yy,zz,00''"

definition resume23 :: string where
  "resume23 = ''a b c d e f g h i j k l m n o p q r s t u v w''"

text \<open>
  A resume text with white space at both ends, runs of white space (spaces, a tab and a line
  feed), capitals and punctuation, and a skills string with a skill of two words.
\<close>

definition example_resume_text :: string where
  "example_resume_text =
     ''  Expert in Machine   Learning'' @ [CHR 0x09, CHR 0x0A] @ ''& (Java)!  ''"

definition example_skills :: string where
  "example_skills = '' Machine Learning , C++,Java''"

text \<open>
  A store with one job and five resumes: three of job seekers, one of a recruiter and one
  whose user is not in the users collection.
\<close>

definition example_job :: job where
  "example_job = \<lparr>title = ''Developer'', company = ''Acme'', description = ''Web'',
     skills = ''React, Node''\<rparr>"

definition example_db :: db where
  "example_db =
     \<lparr>jobs = [(''j1'', example_job)],
      resumes =
        [(''u1'', \<lparr>userId = ''u1'', resumeText = ''Node'', uploadedAt = ''t1'', filePath = ''f1''\<rparr>),
         (''u2'', \<lparr>userId = ''u2'', resumeText = ''React and Node'', uploadedAt = ''t2'',
                   filePath = ''f2''\<rparr>),
         (''u3'', \<lparr>userId = ''u3'', resumeText = ''React'', uploadedAt = ''t3'', filePath = ''f3''\<rparr>),
         (''u4'', \<lparr>userId = ''u4'', resumeText = ''React and Node'', uploadedAt = ''t4'',
                   filePath = ''f4''\<rparr>),
         (''u5'', \<lparr>userId = ''u5'', resumeText = ''React and Node'', uploadedAt = ''t5'',
                   filePath = ''f5''\<rparr>)],
      users =
        [(''u1'', \<lparr>email = ''u1@example.org'', role = ''Job Seeker''\<rparr>),
         (''u2'', \<lparr>email = ''u2@example.org'', role = ''Job Seeker''\<rparr>),
         (''u3'', \<lparr>email = ''u3@example.org'', role = ''Job Seeker''\<rparr>),
         (''u4'', \<lparr>email = ''u4@example.org'', role = ''Recruiter''\<rparr>)]\<rparr>"

definition example_ranking :: "applicant list" where
  "example_ranking =
     [\<lparr>a_userId = ''u2'', a_email = ''u2@example.org'', a_matchScore = 100,
       a_matchedSkills = [''react'', ''node'']\<rparr>,
      \<lparr>a_userId = ''u1'', a_email = ''u1@example.org'', a_matchScore = 50,
       a_matchedSkills = [''node'']\<rparr>,
      \<lparr>a_userId = ''u3'', a_email = ''u3@example.org'', a_matchScore = 50,
       a_matchedSkills = [''react'']\<rparr>]"

text \<open>
  An environment with an API key, for two answers of the service: a sentence that is not
  JSON, and an array of four identifiers none of which is a listed job. \<open>example_JSON_parse\<close>
  is \<^verbatim>\<open>JSON.parse\<close> on these two texts; no other text is parsed in the examples.
\<close>

definition example_four_text :: string where
  "example_four_text = ''[\"x1\",\"x2\",\"x3\",\"x4\"]''"

definition example_four_ids :: "json list" where
  "example_four_ids = [JString ''x1'', JString ''x2'', JString ''x3'', JString ''x4'']"

definition example_JSON_parse :: "string \<Rightarrow> json option" where
  "example_JSON_parse s = (if s = example_four_text then Some (JArray example_four_ids) else None)"


definition example_env_four :: env where
  "example_env_four =
     \<lparr>GEMINI_API_KEY = ''key'', CANVAS_MODE = None,
      fetchCandidateText = (\<lambda>systemPrompt userQuery. Some (example_four_text @ [CHR 0x0A])),
      JSON_parse = example_JSON_parse\<rparr>"

definition example_allJobs :: "listedJob list" where
  "example_allJobs = [\<lparr>job_id = ''j1'', job_title = ''Developer'', job_skills = ''React, Node''\<rparr>]"

text \<open>
  Library functions for the examples, whose buffers are plain text or empty. The PDF parser
  throws on the empty buffer, with the message of pdf-parse, and on the other buffers, none of
  which is a PDF document. The DOCX extractor throws as well, none of the buffers being a DOCX
  file; this message and the second of the PDF parser stand for the libraries'. The decoder
  is the decoding of a buffer of ASCII bytes, which UTF-8 leaves as they are.
\<close>

definition example_library :: library where
  "example_library =
     \<lparr>pdf_parse =
        (\<lambda>dataBuffer. if dataBuffer = [] then Inl ''PDFDocument: stream must have data''
                      else Inl ''Invalid PDF structure''),
      mammoth_extractRawText = (\<lambda>dataBuffer. Inl ''Not a DOCX file''),
      toString_utf8 = (\<lambda>dataBuffer. dataBuffer)\<rparr>"

definition example_file :: uploadedFile where
  "example_file = \<lparr>path = ''uploads/u1-1.png'', mimetype = ''image/png'', fileBytes = ''PNG''\<rparr>"

definition example_empty_pdf :: uploadedFile where
  "example_empty_pdf =
     \<lparr>path = ''uploads/u1-2.pdf'', mimetype = ''application/pdf'', fileBytes = []\<rparr>"


section \<open>Properties of the string functions\<close>

lemma of_char_comma: "(of_char (CHR '','') :: nat) = 44" by simp
lemma of_char_space: "(of_char (CHR '' '') :: nat) = 32" by simp

lemma comma_iff: "c = CHR '','' \<longleftrightarrow> (of_char c :: nat) = 44"
  by (metis of_char_comma of_char_eq_iff)

lemma of_char_lowerChar:
  "(of_char (lowerChar c) :: nat) =
     (if (65 \<le> (of_char c :: nat) \<and> (of_char c :: nat) \<le> 90)
         \<or> (192 \<le> (of_char c :: nat) \<and> (of_char c :: nat) \<le> 222 \<and> (of_char c :: nat) \<noteq> 215)
      then of_char c + 32 else of_char c)"
  by (auto simp: lowerChar_def Let_def)

lemma lowerChar_comma: "lowerChar c = CHR '','' \<longleftrightarrow> c = CHR '',''"
  unfolding comma_iff of_char_lowerChar by auto

lemma isWhiteSpace_lowerChar: "isWhiteSpace (lowerChar c) \<longleftrightarrow> isWhiteSpace c"
  unfolding isWhiteSpace_def of_char_lowerChar by auto

lemma not_upper_lowerChar: "\<not> isUpperAZ (lowerChar c)"
  unfolding isUpperAZ_def of_char_lowerChar by auto

lemma startsWith_iff: "startsWith s t \<longleftrightarrow> (\<exists>v. s = t @ v)"
  unfolding startsWith_def
  by (metis append_eq_conv_conj append_take_drop_id)

lemma String_includes_iff: "String_includes s t \<longleftrightarrow> (\<exists>u v. s = u @ t @ v)"
proof (induction s)
  case Nil
  then show ?case by auto
next
  case (Cons c cs)
  show ?case
  proof
    assume "String_includes (c # cs) t"
    then consider "startsWith (c # cs) t" | "String_includes cs t" by auto
    then show "\<exists>u v. c # cs = u @ t @ v"
    proof cases
      case 1
      then obtain v where "c # cs = t @ v" using startsWith_iff by blast
      then have "c # cs = [] @ t @ v" by simp
      then show ?thesis by blast
    next
      case 2
      then obtain u v where "cs = u @ t @ v" using Cons.IH by blast
      then have "c # cs = (c # u) @ t @ v" by simp
      then show ?thesis by blast
    qed
  next
    assume "\<exists>u v. c # cs = u @ t @ v"
    then obtain u v where uv: "c # cs = u @ t @ v" by blast
    show "String_includes (c # cs) t"
    proof (cases u)
      case Nil
      then have "startsWith (c # cs) t" using uv startsWith_iff by auto
      then show ?thesis by simp
    next
      case (Cons d u')
      then have "cs = u' @ t @ v" using uv by simp
      then have "String_includes cs t" using Cons.IH by blast
      then show ?thesis by simp
    qed
  qed
qed

section \<open>Properties of the skill matcher\<close>

lemma forEach_skill_filter:
  "forEach_skill nr xs (ma, mi) =
     (ma @ filter (String_includes nr) xs, mi @ filter (\<lambda>s. \<not> String_includes nr s) xs)"
  by (induction xs arbitrary: ma mi) auto

lemma String_split_nonempty: "String_split sep s \<noteq> []"
  by (induction s) (auto split: list.splits)

lemma String_split_map:
  assumes "\<And>c. f c = sep \<longleftrightarrow> c = sep"
  shows "String_split sep (map f s) = map (map f) (String_split sep s)"
  using assms by (induction s) (auto split: list.splits simp: String_split_nonempty)

lemma String_split_no_sep: "t \<in> set (String_split sep s) \<Longrightarrow> sep \<notin> set t"
  by (induction s arbitrary: t) (auto split: if_splits list.splits)

lemma set_String_trim: "set (String_trim s) \<subseteq> set s"
  unfolding String_trim_def
  by (metis set_rev set_dropWhileD subsetI)

lemma String_trim_map:
  assumes "\<And>c. isWhiteSpace (f c) \<longleftrightarrow> isWhiteSpace c"
  shows "String_trim (map f s) = map f (String_trim s)"
proof -
  have "isWhiteSpace \<circ> f = isWhiteSpace" using assms by auto
  then show ?thesis
    by (simp add: String_trim_def dropWhile_map rev_map)
qed

lemma set_collapseWhiteSpace:
  "set (collapseWhiteSpace s) \<subseteq> {c \<in> set s. \<not> isWhiteSpace c} \<union> {CHR '' ''}"
proof (induction s rule: collapseWhiteSpace.induct)
  case 1
  then show ?case by simp
next
  case (2 c cs)
  show ?case
  proof (cases "isWhiteSpace c")
    case True
    have "set (dropWhile isWhiteSpace cs) \<subseteq> set cs" by (meson set_dropWhileD subsetI)
    with True 2 show ?thesis by auto
  next
    case False
    with 2 show ?thesis by auto
  qed
qed

lemma forEach_skill_start:
  "forEach_skill nr xs ([], []) =
     (filter (String_includes nr) xs, filter (\<lambda>s. \<not> String_includes nr s) xs)"
  by (simp add: forEach_skill_filter)

lemma matchedSkills_eq:
  "matchedSkills (matchResumeToJob text csv) =
     filter (String_includes (normalizeText text)) (requiredSkills csv)"
  by (simp add: matchResumeToJob_def Let_def forEach_skill_start)

lemma missingSkills_eq:
  "missingSkills (matchResumeToJob text csv) =
     filter (\<lambda>s. \<not> String_includes (normalizeText text) s) (requiredSkills csv)"
  by (simp add: matchResumeToJob_def Let_def forEach_skill_start)

lemma matchScore_eq:
  "matchScore (matchResumeToJob text csv) =
     (if requiredSkills csv = [] then 100
      else Math_round (Number_mul
             (Number_div (of_nat (length (matchedSkills (matchResumeToJob text csv))))
                (of_nat (length (requiredSkills csv)))) 100))"
  by (simp add: matchResumeToJob_def Let_def forEach_skill_start)

lemma matchResumeToJob_no_skills:
  "requiredSkills csv = [] \<Longrightarrow>
   matchResumeToJob text csv = \<lparr>matchScore = 100, matchedSkills = [], missingSkills = []\<rparr>"
  by (simp add: matchResumeToJob_def)

lemma matched_missing_partition:
  "length (matchedSkills (matchResumeToJob text csv)) +
     length (missingSkills (matchResumeToJob text csv)) = length (requiredSkills csv)"
  "set (matchedSkills (matchResumeToJob text csv)) \<union>
     set (missingSkills (matchResumeToJob text csv)) = set (requiredSkills csv)"
  "set (matchedSkills (matchResumeToJob text csv)) \<inter>
     set (missingSkills (matchResumeToJob text csv)) = {}"
  unfolding matchedSkills_eq missingSkills_eq
  by (simp_all add: sum_length_filter_compl) auto

lemma toLowerCase_split:
  "String_split (CHR '','') (toLowerCase s) = map toLowerCase (String_split (CHR '','') s)"
proof -
  have "String_split (CHR '','') (map lowerChar s) = map (map lowerChar) (String_split (CHR '','') s)"
    by (rule String_split_map) (rule lowerChar_comma)
  then show ?thesis by (simp add: toLowerCase_def[abs_def])
qed

lemma toLowerCase_trim: "String_trim (toLowerCase t) = toLowerCase (String_trim t)"
  unfolding toLowerCase_def by (rule String_trim_map) (rule isWhiteSpace_lowerChar)

lemma toLowerCase_Nil_iff: "toLowerCase t = [] \<longleftrightarrow> t = []"
  by (simp add: toLowerCase_def)

lemma requiredSkills_tokens:
  "requiredSkills csv =
     filter (\<lambda>s. s \<noteq> []) (map (\<lambda>t. String_trim (toLowerCase t)) (String_split (CHR '','') csv))"
  by (simp add: requiredSkills_def toLowerCase_split comp_def)

lemma spec_collapse_ws:
  "isWhiteSpace c \<Longrightarrow>
   spec_collapse_runs (c # cs) = CHR '' '' # spec_collapse_runs (dropWhile isWhiteSpace cs)"
  by (induction cs arbitrary: c) auto

lemma spec_collapse_other:
  "\<not> isWhiteSpace c \<Longrightarrow> spec_collapse_runs (c # cs) = c # spec_collapse_runs cs"
  by (cases cs) auto

lemma spec_collapse_runs_eq: "spec_collapse_runs s = collapseWhiteSpace s"
proof (induction s rule: collapseWhiteSpace.induct)
  case 1
  show ?case by simp
next
  case (2 c cs)
  show ?case
  proof (cases "isWhiteSpace c")
    case True
    with 2 show ?thesis by (simp add: spec_collapse_ws del: spec_collapse_runs.simps)
  next
    case False
    with 2 show ?thesis by (simp add: spec_collapse_other del: spec_collapse_runs.simps)
  qed
qed

lemma spec_strip_leading_eq: "spec_strip_leading s = dropWhile isWhiteSpace s"
  by (induction s) auto

lemma spec_strip_trailing_blank: "list_all isWhiteSpace s \<Longrightarrow> spec_strip_trailing s = []"
  by (cases s) auto

lemma spec_strip_trailing_eq:
  "spec_strip_trailing s = rev (dropWhile isWhiteSpace (rev s))"
proof (induction s)
  case Nil
  then show ?case by simp
next
  case (Cons c cs)
  show ?case
  proof (cases "list_all isWhiteSpace cs")
    case True
    then have all: "\<forall>x \<in> set (rev cs). isWhiteSpace x" by (simp add: list_all_iff)
    have "dropWhile isWhiteSpace (rev cs @ [c]) = dropWhile isWhiteSpace [c]"
      using all by (simp add: dropWhile_append)
    then have r: "rev (dropWhile isWhiteSpace (rev (c # cs))) = rev (dropWhile isWhiteSpace [c])"
      by simp
    show ?thesis
    proof (cases "isWhiteSpace c")
      case w: True
      with True r show ?thesis by simp
    next
      case w: False
      have "spec_strip_trailing cs = []" using True by (rule spec_strip_trailing_blank)
      with w r show ?thesis by simp
    qed
  next
    case False
    then have ex: "\<not> (\<forall>x \<in> set (rev cs). isWhiteSpace x)" by (simp add: list_all_iff)
    have "dropWhile isWhiteSpace (rev cs @ [c]) = dropWhile isWhiteSpace (rev cs) @ [c]"
      using ex by (simp add: dropWhile_append)
    then have "rev (dropWhile isWhiteSpace (rev (c # cs))) = c # rev (dropWhile isWhiteSpace (rev cs))"
      by simp
    with False Cons.IH show ?thesis by simp
  qed
qed

lemma spec_trim_eq: "spec_trim s = String_trim s"
  by (simp add: spec_trim_def String_trim_def spec_strip_leading_eq spec_strip_trailing_eq)

lemma spec_parse_eq: "spec_parse csv = requiredSkills csv"
  by (simp add: requiredSkills_tokens spec_parse_def spec_trim_eq toLowerCase_trim)

lemma spec_replace_symbols_lower: "spec_replace_symbols (toLowerCase text) = blankOthers (toLowerCase text)"
  by (simp add: spec_replace_symbols_def blankOthers_def toLowerCase_def inKeptClass_def
        not_upper_lowerChar)

lemma spec_normalize_eq: "spec_normalize text = normalizeText text"
  by (simp add: spec_normalize_def normalizeText_def spec_replace_symbols_lower
        spec_collapse_runs_eq spec_trim_eq)

lemma spec_contains_iff: "spec_contains s t \<longleftrightarrow> String_includes s t"
  by (simp add: spec_contains_def String_includes_iff)

lemma set_normalizeText:
  "c \<in> set (normalizeText text) \<Longrightarrow> isLowerAZ c \<or> isDigit c \<or> c = CHR '' '' \<or> c = CHR '',''"
proof -
  assume "c \<in> set (normalizeText text)"
  then have "c \<in> set (collapseWhiteSpace (blankOthers (toLowerCase text)))"
    using set_String_trim unfolding normalizeText_def by blast
  then have "(c \<in> set (blankOthers (toLowerCase text)) \<and> \<not> isWhiteSpace c) \<or> c = CHR '' ''"
    using set_collapseWhiteSpace by blast
  then show ?thesis
    by (auto simp: blankOthers_def inKeptClass_def split: if_splits)
qed

lemma requiredSkills_no_comma:
  assumes "skill \<in> set (requiredSkills csv)"
  shows "CHR '','' \<notin> set skill"
proof -
  from assms obtain t where t: "t \<in> set (String_split (CHR '','') (toLowerCase csv))"
    and skill: "skill = String_trim t"
    by (auto simp: requiredSkills_def)
  from t have "CHR '','' \<notin> set t" by (rule String_split_no_sep)
  with skill set_String_trim show ?thesis by blast
qed

lemma split_no_sep: "sep \<notin> set t \<Longrightarrow> String_split sep t = [t]"
  by (induction t) auto

lemma split_append_sep:
  "sep \<notin> set t \<Longrightarrow> String_split sep (t @ sep # rest) = t # String_split sep rest"
  by (induction t) auto

lemma split_joinWithCommas:
  "tokens \<noteq> [] \<Longrightarrow> \<forall>t \<in> set tokens. CHR '','' \<notin> set t \<Longrightarrow>
   String_split (CHR '','') (joinWithCommas tokens) = tokens"
  by (induction tokens rule: joinWithCommas.induct) (simp_all add: split_no_sep split_append_sep)

lemma requiredSkills_join:
  assumes "\<forall>t \<in> set tokens. CHR '','' \<notin> set t"
  shows "requiredSkills (joinWithCommas tokens) =
           filter (\<lambda>s. s \<noteq> []) (map (\<lambda>t. String_trim (toLowerCase t)) tokens)"
proof (cases "tokens = []")
  case True
  then show ?thesis by (simp add: requiredSkills_tokens String_trim_def toLowerCase_def)
next
  case False
  then show ?thesis using assms by (simp add: requiredSkills_tokens split_joinWithCommas)
qed

lemma binary64_examples:
  "Number_div 1 8 = 1 / 8 \<and> Number_mul (1 / 8) 100 = 25 / 2
   \<and> Number_div 1 3 = 6004799503160661 / 2 ^ 54
   \<and> Number_div 2 3 = 6004799503160661 / 2 ^ 53
   \<and> Number_mul (Number_div 2 3) 100 = 4691249611844266 / 2 ^ 46
   \<and> Number_div 0 5 = 0 \<and> Number_mul 1 100 = 100"
  by code_simp

text \<open>
  Claim C1. The result of \<open>matchResumeToJob\<close> for an empty list of required skills is the
  perfect match, and otherwise the two lists split the required skills
  (\<open>matchResumeToJob_no_skills\<close>, \<open>matched_missing_partition\<close>). The score is the claim's
  \<open>round(100 * matched / N)\<close>, rounded half up, only as far as the two floating-point
  operations of line 83 are exact. For a job with forty different skills of which the resume
  has twenty-three, the quotient \<open>23 / 40\<close> is rounded down to the nearest binary64 value, the
  product with 100 is \<open>57.49999999999999\<close> and not \<open>57.5\<close>, and the score is 57 where the
  claim's formula gives 58.
\<close>

theorem matchScore_23_of_40:
  "length (requiredSkills skills40) = 40 \<and> distinct (requiredSkills skills40)
   \<and> length (matchedSkills (matchResumeToJob resume23 skills40)) = 23
   \<and> length (missingSkills (matchResumeToJob resume23 skills40)) = 17
   \<and> Number_div 23 40 = 5179139571476070 / 2 ^ 53
   \<and> Number_mul (Number_div 23 40) 100 = 8092405580431359 / 2 ^ 47
   \<and> matchScore (matchResumeToJob resume23 skills40) = 57
   \<and> \<lfloor>(100 * 23 / 40 + 1 / 2 :: rat)\<rfloor> = (58 :: int)"
  by code_simp

text \<open>
  Claim C2. The text the matcher searches is the resume text normalised as the specification
  says (lower case, a space for every character that is not an ASCII letter, a digit, white
  space or a comma, one space for every run of white space, no white space at the ends), and
  the skills it looks for are the tokens between the commas, trimmed and in lower case. A
  required skill is in \<open>matchedSkills\<close> exactly when that normalised text contains it as a
  block of consecutive characters. The resume text \<open>I know javascript well\<close> matches the
  skill \<open>java\<close>.
\<close>

theorem matched_iff_substring:
  "normalizeText text = spec_normalize text
   \<and> requiredSkills csv = spec_parse csv
   \<and> (skill \<in> set (spec_parse csv) \<longrightarrow>
        (skill \<in> set (matchedSkills (matchResumeToJob text csv))
           \<longleftrightarrow> spec_contains (spec_normalize text) skill))
   \<and> ''java'' \<in> set (matchedSkills (matchResumeToJob ''I know javascript well'' ''java''))"
proof (intro conjI)
  show "normalizeText text = spec_normalize text" by (simp add: spec_normalize_eq)
  show "requiredSkills csv = spec_parse csv" by (simp add: spec_parse_eq)
  show "skill \<in> set (spec_parse csv) \<longrightarrow>
        (skill \<in> set (matchedSkills (matchResumeToJob text csv))
           \<longleftrightarrow> spec_contains (spec_normalize text) skill)"
    by (simp add: spec_parse_eq spec_normalize_eq matchedSkills_eq spec_contains_iff)
  show "''java'' \<in> set (matchedSkills (matchResumeToJob ''I know javascript well'' ''java''))"
    by code_simp
qed

theorem matched_iff_substring_witness:
  "''machine learning'' \<in> set (spec_parse example_skills)
   \<and> spec_parse example_skills = [''machine learning'', ''c++'', ''java'']
   \<and> spec_normalize example_resume_text = ''expert in machine learning java''
   \<and> normalizeText example_resume_text = ''expert in machine learning java''
   \<and> spec_contains (spec_normalize example_resume_text) ''machine learning''
   \<and> ''machine learning'' \<in> set (matchedSkills (matchResumeToJob example_resume_text example_skills))"
proof -
  note inst = matched_iff_substring [of example_resume_text example_skills "''machine learning''"]
  have p: "spec_parse example_skills = [''machine learning'', ''c++'', ''java'']" by code_simp
  then have a: "''machine learning'' \<in> set (spec_parse example_skills)" by simp
  have n: "spec_normalize example_resume_text = ''expert in machine learning java''" by code_simp
  with inst have m: "normalizeText example_resume_text = ''expert in machine learning java''"
    by simp
  have "''expert in machine learning java'' = ''expert in '' @ ''machine learning'' @ '' java''"
    by simp
  then have c: "spec_contains (spec_normalize example_resume_text) ''machine learning''"
    unfolding spec_contains_def n by blast
  from inst a c
  have "''machine learning'' \<in> set (matchedSkills (matchResumeToJob example_resume_text example_skills))"
    by blast
  with a p n m c show ?thesis by blast
qed

text \<open>
  Claim C3. Parsing the skills does not remove duplicates. For tokens without commas, the
  required skills of the tokens joined by commas are the trimmed, lower-cased tokens that are
  not empty, in the order of the tokens and each as often as it occurs. The string
  \<open>React, React, Node\<close> gives three skills, \<open>react\<close> twice. The denominator of the score is
  the length of that list: a resume with \<open>react\<close> alone scores 67 for it (two of three),
  and 50 for \<open>React, Node\<close> (one of two).
\<close>

theorem requiredSkills_keeps_duplicates:
  "((\<forall>t \<in> set tokens. CHR '','' \<notin> set t) \<longrightarrow>
        requiredSkills (joinWithCommas tokens) =
          filter (\<lambda>s. s \<noteq> []) (map (\<lambda>t. String_trim (toLowerCase t)) tokens))
   \<and> requiredSkills ''React, React, Node'' = [''react'', ''react'', ''node'']
   \<and> (requiredSkills csv \<noteq> [] \<longrightarrow>
        matchScore (matchResumeToJob text csv) =
          Math_round (Number_mul
            (Number_div (of_nat (length (matchedSkills (matchResumeToJob text csv))))
               (of_nat (length (requiredSkills csv)))) 100))
   \<and> matchScore (matchResumeToJob ''react'' ''React, React, Node'') = 67
   \<and> matchScore (matchResumeToJob ''react'' ''React, Node'') = 50"
proof (intro conjI)
  show "(\<forall>t \<in> set tokens. CHR '','' \<notin> set t) \<longrightarrow>
        requiredSkills (joinWithCommas tokens) =
          filter (\<lambda>s. s \<noteq> []) (map (\<lambda>t. String_trim (toLowerCase t)) tokens)"
    using requiredSkills_join by blast
  show "requiredSkills ''React, React, Node'' = [''react'', ''react'', ''node'']"
    by code_simp
  show "requiredSkills csv \<noteq> [] \<longrightarrow>
        matchScore (matchResumeToJob text csv) =
          Math_round (Number_mul
            (Number_div (of_nat (length (matchedSkills (matchResumeToJob text csv))))
               (of_nat (length (requiredSkills csv)))) 100)"
    by (simp add: matchScore_eq)
  show "matchScore (matchResumeToJob ''react'' ''React, React, Node'') = 67"
    by code_simp
  show "matchScore (matchResumeToJob ''react'' ''React, Node'') = 50"
    by code_simp
qed

theorem requiredSkills_keeps_duplicates_witness:
  "CHR '','' \<notin> set ''React'' \<and> CHR '','' \<notin> set '' React'' \<and> CHR '','' \<notin> set '' Node''
   \<and> joinWithCommas [''React'', '' React'', '' Node''] = ''React, React, Node''
   \<and> requiredSkills (joinWithCommas [''React'', '' React'', '' Node'']) =
        [''react'', ''react'', ''node'']
   \<and> requiredSkills ''React, React, Node'' \<noteq> []"
proof -
  have h: "\<forall>t \<in> set [''React'', '' React'', '' Node'']. CHR '','' \<notin> set t" by simp
  have e: "filter (\<lambda>s. s \<noteq> []) (map (\<lambda>t. String_trim (toLowerCase t)) [''React'', '' React'', '' Node''])
             = [''react'', ''react'', ''node'']"
    by code_simp
  have j: "joinWithCommas [''React'', '' React'', '' Node''] = ''React, React, Node''" by simp
  from requiredSkills_keeps_duplicates [of "[''React'', '' React'', '' Node'']" "''React, React, Node''" "''react''"] h e j
  show ?thesis by simp
qed

text \<open>
  Claim C10. A required skill with a character that is not a lower-case ASCII letter, a digit
  or white space, such as \<open>c++\<close>, \<open>node.js\<close> or \<open>c#\<close>, is never matched and is always
  among the missing skills, whatever the resume text: the normalised resume text has no such
  character.
\<close>

theorem symbol_skill_never_matched:
  assumes "skill \<in> set (requiredSkills csv)"
    and "c \<in> set skill"
    and "\<not> isLowerAZ c" and "\<not> isDigit c" and "\<not> isWhiteSpace c"
  shows "skill \<notin> set (matchedSkills (matchResumeToJob text csv))
         \<and> skill \<in> set (missingSkills (matchResumeToJob text csv))"
proof -
  have "c \<noteq> CHR '',''" using requiredSkills_no_comma assms(1,2) by blast
  moreover have "c \<noteq> CHR '' ''" using assms(5) by (auto simp: isWhiteSpace_def)
  ultimately have "c \<notin> set (normalizeText text)"
    using set_normalizeText assms(3,4) by blast
  then have "\<not> String_includes (normalizeText text) skill"
    using assms(2) by (auto simp: String_includes_iff)
  then show ?thesis using assms(1) by (simp add: matchedSkills_eq missingSkills_eq)
qed

theorem symbol_skill_never_matched_witness:
  "''c++'' \<in> set (requiredSkills ''C++, Node.js, C#'')
   \<and> CHR ''+'' \<in> set ''c++''
   \<and> \<not> isLowerAZ (CHR ''+'') \<and> \<not> isDigit (CHR ''+'') \<and> \<not> isWhiteSpace (CHR ''+'')
   \<and> ''c++'' \<notin> set (matchedSkills (matchResumeToJob ''I write C++, Node.js and C# daily'' ''C++, Node.js, C#''))
   \<and> ''c++'' \<in> set (missingSkills (matchResumeToJob ''I write C++, Node.js and C# daily'' ''C++, Node.js, C#''))"
proof -
  have 1: "''c++'' \<in> set (requiredSkills ''C++, Node.js, C#'')" by code_simp
  have 2: "CHR ''+'' \<in> set ''c++''" by simp
  have 3: "\<not> isLowerAZ (CHR ''+'')" by (simp add: isLowerAZ_def)
  have 4: "\<not> isDigit (CHR ''+'')" by (simp add: isDigit_def)
  have 5: "\<not> isWhiteSpace (CHR ''+'')" by (simp add: isWhiteSpace_def)
  from symbol_skill_never_matched [OF 1 2 3 4 5, of "''I write C++, Node.js and C# daily''"] 1 2 3 4 5
  show ?thesis by blast
qed

lemma symbol_skills_examples:
  "matchResumeToJob ''I write C++, Node.js and C# daily'' ''C++, Node.js, C#'' =
     \<lparr>matchScore = 0, matchedSkills = [], missingSkills = [''c++'', ''node.js'', ''c#'']\<rparr>"
  by code_simp


section \<open>Properties of the applicant ranking\<close>

lemma usersMap_foldl_None:
  "foldl (\<lambda>acc doc. acc(fst doc \<mapsto> snd doc)) m docs uid = None
     \<longleftrightarrow> m uid = None \<and> uid \<notin> fst ` set docs"
  by (induction docs arbitrary: m) auto

lemma usersMap_None_iff: "usersMap docs uid = None \<longleftrightarrow> uid \<notin> fst ` set docs"
  by (simp add: usersMap_def usersMap_foldl_None)

lemma forResumeDocs_eq:
  "forResumeDocs um js docs acc = acc @ map (applicantOf um js) (filter (eligible um) docs)"
  by (induction docs arbitrary: acc)
     (auto simp: eligible_def applicantOf_def Let_def split: option.splits)

lemma applicantsList_of_eq:
  "applicantsList_of d js =
     map (applicantOf (usersMap (users d)) js) (filter (eligible (usersMap (users d))) (resumes d))"
  by (simp add: applicantsList_of_def forResumeDocs_eq)

lemma insertSorted_insort_key:
  "insertSorted compareFn x ys = insort_key (\<lambda>a. - a_matchScore a) x ys"
  by (induction ys) (auto simp: compareFn_def)

lemma Array_sort_sort_key: "Array_sort compareFn xs = sort_key (\<lambda>a. - a_matchScore a) xs"
proof -
  have "insertSorted compareFn = insort_key (\<lambda>a. - a_matchScore a)"
    by (intro ext) (rule insertSorted_insort_key)
  then show ?thesis by (simp add: Array_sort_def sort_key_def)
qed

lemma byScoreDescending_iff: "byScoreDescending xs \<longleftrightarrow> sorted (map (\<lambda>a. - a_matchScore a) xs)"
  by (simp add: byScoreDescending_def sorted_map)

lemma Array_sort_sorted: "byScoreDescending (Array_sort compareFn xs)"
  by (simp add: byScoreDescending_iff Array_sort_sort_key)

lemma Array_sort_stable: "withScore s (Array_sort compareFn xs) = withScore s xs"
proof -
  have "filter (\<lambda>a. - a_matchScore a = - s) (sort_key (\<lambda>a. - a_matchScore a) xs)
          = filter (\<lambda>a. - a_matchScore a = - s) xs"
    by (rule sort_key_stable)
  then show ?thesis by (simp add: withScore_def Array_sort_sort_key)
qed

lemma mset_from_withScore:
  assumes "\<And>s. withScore s ys = withScore s xs"
  shows "mset ys = mset xs"
proof (rule multiset_eqI)
  fix a
  have "count (mset ys) a = count (mset (withScore (a_matchScore a) ys)) a"
    by (simp add: withScore_def)
  also have "\<dots> = count (mset (withScore (a_matchScore a) xs)) a"
    by (simp add: assms)
  also have "\<dots> = count (mset xs) a"
    by (simp add: withScore_def)
  finally show "count (mset ys) a = count (mset xs) a" .
qed

lemma Array_sort_unique:
  assumes sorted: "byScoreDescending ys"
    and stable: "\<And>s. withScore s ys = withScore s xs"
  shows "ys = Array_sort compareFn xs"
proof -
  have "sort_key (\<lambda>a. - a_matchScore a) xs = ys"
  proof (rule properties_for_sort_key)
    show "mset ys = mset xs" using stable by (rule mset_from_withScore)
    show "sorted (map (\<lambda>a. - a_matchScore a) ys)" using sorted by (simp add: byScoreDescending_iff)
    fix k
    assume "k \<in> set ys"
    have "withScore (a_matchScore k) ys = withScore (a_matchScore k) xs" by (rule stable)
    then show "filter (\<lambda>x. - a_matchScore k = - a_matchScore x) ys
                 = filter (\<lambda>x. - a_matchScore k = - a_matchScore x) xs"
      by (simp add: withScore_def eq_commute)
  qed
  then show ?thesis by (simp add: Array_sort_sort_key)
qed

lemma a_userId_applicantOf: "a_userId (applicantOf um js doc) = fst doc"
  by (simp add: applicantOf_def)

lemma eligible_iff:
  "eligible um doc \<longleftrightarrow> (\<exists>u. um (fst doc) = Some u \<and> role u = ''Job Seeker'')"
  by (simp add: eligible_def split: option.splits)

lemma example_ranking_eval: "getApplicants example_db ''j1'' = (200, ApplicantsBody example_ranking)"
  by code_simp

text \<open>
  Claim C4. For a job that exists, the handler answers with the list of the eligible
  candidates' entries ordered by score, highest first; the entries with any one score are in
  the order of their resume documents in the snapshot (the sort is stable); and the list is
  the only list with these two properties, so the order of the answer is a function of the
  job's skills and of the snapshot alone.
\<close>

theorem applicants_ranked:
  assumes "map_of (jobs d) jobId = Some jobDoc"
  shows "\<exists>out. getApplicants d jobId = (200, ApplicantsBody out)
           \<and> byScoreDescending out
           \<and> (\<forall>s. withScore s out =
                    withScore s (map (applicantOf (usersMap (users d)) (skills jobDoc))
                                   (filter (eligible (usersMap (users d))) (resumes d))))
           \<and> (\<forall>ys. byScoreDescending ys
                    \<and> (\<forall>s. withScore s ys =
                          withScore s (map (applicantOf (usersMap (users d)) (skills jobDoc))
                                         (filter (eligible (usersMap (users d))) (resumes d))))
                    \<longrightarrow> ys = out)"
proof -
  let ?xs = "map (applicantOf (usersMap (users d)) (skills jobDoc))
               (filter (eligible (usersMap (users d))) (resumes d))"
  let ?out = "Array_sort compareFn ?xs"
  have "getApplicants d jobId = (200, ApplicantsBody ?out)"
    using assms by (simp add: getApplicants_def applicantsList_of_eq)
  moreover have "byScoreDescending ?out" by (rule Array_sort_sorted)
  moreover have "\<forall>s. withScore s ?out = withScore s ?xs" by (simp add: Array_sort_stable)
  moreover have "\<forall>ys. byScoreDescending ys \<and> (\<forall>s. withScore s ys = withScore s ?xs) \<longrightarrow> ys = ?out"
    using Array_sort_unique by blast
  ultimately show ?thesis by blast
qed

theorem applicants_ranked_witness:
  "map_of (jobs example_db) ''j1'' = Some example_job
   \<and> getApplicants example_db ''j1'' = (200, ApplicantsBody example_ranking)
   \<and> byScoreDescending example_ranking
   \<and> withScore 50 example_ranking =
        withScore 50 (map (applicantOf (usersMap (users example_db)) (skills example_job))
                        (filter (eligible (usersMap (users example_db))) (resumes example_db)))"
proof -
  have h: "map_of (jobs example_db) ''j1'' = Some example_job" by (simp add: example_db_def)
  from applicants_ranked [OF h] obtain out
    where o: "getApplicants example_db ''j1'' = (200, ApplicantsBody out)"
      and s: "byScoreDescending out"
      and st: "\<forall>s. withScore s out =
                 withScore s (map (applicantOf (usersMap (users example_db)) (skills example_job))
                        (filter (eligible (usersMap (users example_db))) (resumes example_db)))"
    by blast
  from o example_ranking_eval have "out = example_ranking" by simp
  with h o s st show ?thesis by blast
qed

text \<open>
  Claim C9. When the job identifier finds no job, the answer is the 404 message
  \<open>Job not found.\<close> whatever the resumes and users are, and no list. When it finds one,
  the answer is a list (status 200) of exactly the resume owners that \<^verbatim>\<open>usersMap\<close> knows as
  job seekers: the owner of a resume who has no user document, or whose role is another one,
  is left out, and leaves the answer a success.
\<close>

theorem applicants_job_not_found_or_filtered:
  "(map_of (jobs d) jobId = None \<longrightarrow> getApplicants d jobId = (404, Message ''Job not found.''))
   \<and> (map_of (jobs d) jobId = Some jobDoc \<longrightarrow>
        (\<exists>out. getApplicants d jobId = (200, ApplicantsBody out)
           \<and> a_userId ` set out =
               {uid \<in> fst ` set (resumes d).
                  \<exists>u. usersMap (users d) uid = Some u \<and> role u = ''Job Seeker''}
           \<and> (\<forall>uid \<in> fst ` set (resumes d).
                 uid \<notin> fst ` set (users d)
                 \<or> (\<exists>u. usersMap (users d) uid = Some u \<and> role u \<noteq> ''Job Seeker'')
                 \<longrightarrow> uid \<notin> a_userId ` set out)))"
proof (intro conjI impI)
  assume "map_of (jobs d) jobId = None"
  then show "getApplicants d jobId = (404, Message ''Job not found.'')"
    by (simp add: getApplicants_def)
next
  assume j: "map_of (jobs d) jobId = Some jobDoc"
  let ?um = "usersMap (users d)"
  let ?xs = "map (applicantOf ?um (skills jobDoc)) (filter (eligible ?um) (resumes d))"
  let ?out = "Array_sort compareFn ?xs"
  have out: "getApplicants d jobId = (200, ApplicantsBody ?out)"
    using j by (simp add: getApplicants_def applicantsList_of_eq)
  have "set ?out = set ?xs" by (simp add: Array_sort_sort_key)
  then have "a_userId ` set ?out = (\<lambda>doc. a_userId (applicantOf ?um (skills jobDoc) doc)) ` {doc \<in> set (resumes d). eligible ?um doc}"
    by (simp add: image_image)
  then have ids: "a_userId ` set ?out = fst ` {doc \<in> set (resumes d). eligible ?um doc}"
    by (simp add: a_userId_applicantOf)
  have set_eq: "a_userId ` set ?out =
      {uid \<in> fst ` set (resumes d). \<exists>u. ?um uid = Some u \<and> role u = ''Job Seeker''}"
    unfolding ids
  proof (intro set_eqI iffI)
    fix uid
    assume "uid \<in> fst ` {doc \<in> set (resumes d). eligible ?um doc}"
    then obtain doc where "doc \<in> set (resumes d)" "eligible ?um doc" "uid = fst doc" by blast
    then show "uid \<in> {uid \<in> fst ` set (resumes d). \<exists>u. ?um uid = Some u \<and> role u = ''Job Seeker''}"
      by (simp add: eligible_iff)
  next
    fix uid
    assume "uid \<in> {uid \<in> fst ` set (resumes d). \<exists>u. ?um uid = Some u \<and> role u = ''Job Seeker''}"
    then obtain doc where "doc \<in> set (resumes d)" "uid = fst doc"
      and "\<exists>u. ?um uid = Some u \<and> role u = ''Job Seeker''" by blast
    then have "doc \<in> {doc \<in> set (resumes d). eligible ?um doc}" by (simp add: eligible_iff)
    then show "uid \<in> fst ` {doc \<in> set (resumes d). eligible ?um doc}"
      using \<open>uid = fst doc\<close> by blast
  qed
  have excl: "\<forall>uid \<in> fst ` set (resumes d).
                 uid \<notin> fst ` set (users d) \<or> (\<exists>u. ?um uid = Some u \<and> role u \<noteq> ''Job Seeker'')
                 \<longrightarrow> uid \<notin> a_userId ` set ?out"
  proof (intro ballI impI)
    fix uid
    assume "uid \<notin> fst ` set (users d) \<or> (\<exists>u. ?um uid = Some u \<and> role u \<noteq> ''Job Seeker'')"
    then have "\<not> (\<exists>u. ?um uid = Some u \<and> role u = ''Job Seeker'')"
    proof
      assume "uid \<notin> fst ` set (users d)"
      then have "?um uid = None" by (simp add: usersMap_None_iff)
      then show ?thesis by simp
    next
      assume "\<exists>u. ?um uid = Some u \<and> role u \<noteq> ''Job Seeker''"
      then show ?thesis by auto
    qed
    then show "uid \<notin> a_userId ` set ?out" unfolding set_eq by simp
  qed
  from out set_eq excl
  show "\<exists>out. getApplicants d jobId = (200, ApplicantsBody out)
           \<and> a_userId ` set out =
               {uid \<in> fst ` set (resumes d).
                  \<exists>u. usersMap (users d) uid = Some u \<and> role u = ''Job Seeker''}
           \<and> (\<forall>uid \<in> fst ` set (resumes d).
                 uid \<notin> fst ` set (users d)
                 \<or> (\<exists>u. usersMap (users d) uid = Some u \<and> role u \<noteq> ''Job Seeker'')
                 \<longrightarrow> uid \<notin> a_userId ` set out)"
    by blast
qed

theorem applicants_job_not_found_or_filtered_witness:
  "map_of (jobs example_db) ''j2'' = None
   \<and> getApplicants example_db ''j2'' = (404, Message ''Job not found.'')
   \<and> map_of (jobs example_db) ''j1'' = Some example_job
   \<and> ''u4'' \<in> fst ` set (resumes example_db)
   \<and> usersMap (users example_db) ''u4'' = Some \<lparr>email = ''u4@example.org'', role = ''Recruiter''\<rparr>
   \<and> ''u5'' \<in> fst ` set (resumes example_db)
   \<and> ''u5'' \<notin> fst ` set (users example_db)
   \<and> getApplicants example_db ''j1'' = (200, ApplicantsBody example_ranking)
   \<and> ''u4'' \<notin> a_userId ` set example_ranking
   \<and> ''u5'' \<notin> a_userId ` set example_ranking"
proof -
  have n: "map_of (jobs example_db) ''j2'' = None" by (simp add: example_db_def)
  have h: "map_of (jobs example_db) ''j1'' = Some example_job" by (simp add: example_db_def)
  have r4: "''u4'' \<in> fst ` set (resumes example_db)" by (simp add: example_db_def)
  have r5: "''u5'' \<in> fst ` set (resumes example_db)" by (simp add: example_db_def)
  have u4: "usersMap (users example_db) ''u4'' = Some \<lparr>email = ''u4@example.org'', role = ''Recruiter''\<rparr>"
    by (simp add: example_db_def usersMap_def)
  have u5: "''u5'' \<notin> fst ` set (users example_db)" by (simp add: example_db_def)
  have nf: "getApplicants example_db ''j2'' = (404, Message ''Job not found.'')"
    using applicants_job_not_found_or_filtered [of example_db "''j2''"] n by blast
  from applicants_job_not_found_or_filtered [of example_db "''j1''" example_job] h obtain out
    where o: "getApplicants example_db ''j1'' = (200, ApplicantsBody out)"
      and ex: "\<forall>uid \<in> fst ` set (resumes example_db).
                 uid \<notin> fst ` set (users example_db)
                 \<or> (\<exists>u. usersMap (users example_db) uid = Some u \<and> role u \<noteq> ''Job Seeker'')
                 \<longrightarrow> uid \<notin> a_userId ` set out"
    by blast
  from o example_ranking_eval have e: "out = example_ranking" by simp
  have x4: "''u4'' \<notin> a_userId ` set out" using ex r4 u4 by fastforce
  have x5: "''u5'' \<notin> a_userId ` set out" using ex r5 u5 by blast
  from n nf h r4 u4 r5 u5 o x4 x5 e show ?thesis by blast
qed


section \<open>Properties of the AI content gateway\<close>

lemma falsy_Some: "\<not> falsy uid \<Longrightarrow> \<exists>s. uid = Some s \<and> s \<noteq> []"
  by (cases uid) (auto simp: falsy_def)

lemma generateGeminiContent_sent:
  "generateGeminiContent e sp uq = (r, sent) \<Longrightarrow> sent = [] \<or> sent = [(sp, uq)]"
  by (auto simp: generateGeminiContent_def split: if_splits option.splits)

lemma postSuggestions_after_generation:
  assumes "\<not> falsy uid" and "allJobs = Some js" and "js \<noteq> []"
    and "map_of (resumes d) (the uid) = Some resumeDoc" and "resumeText resumeDoc \<noteq> []"
    and "generateGeminiContent e suggestions_systemPrompt
           (suggestions_userQuery (resumeText resumeDoc) js) = (Inr jsonResponse, sent)"
  shows "postSuggestions e d uid allJobs =
           (case JSON_parse e (String_trim jsonResponse) of
              None \<Rightarrow> ((200, SuggestionsBody []), sent)
            | Some (JArray recommendedIds) \<Rightarrow> ((200, SuggestionsBody recommendedIds), sent)
            | Some other \<Rightarrow> ((200, SuggestionsBody []), sent))"
  using assms by (simp add: postSuggestions_def)



lemma example_resume_u2:
  "map_of (resumes example_db) ''u2'' =
     Some \<lparr>userId = ''u2'', resumeText = ''React and Node'', uploadedAt = ''t2'', filePath = ''f2''\<rparr>"
  by (simp add: example_db_def)


lemma no_resume_text_cases:
  assumes "map_of rs k = None \<or> (\<exists>r. map_of rs k = Some r \<and> resumeText r = [])"
  shows "(case map_of rs k of None \<Rightarrow> a | Some resumeDoc \<Rightarrow> if resumeText resumeDoc = [] then a else b resumeDoc) = a"
  using assms by (auto split: option.splits)

text \<open>
  Claim C6 as it is stated fails where another check comes first: a request for
  recommendations with an empty list of jobs, for a candidate without a resume, is answered
  with the 400 message of line 409 and not with the resume-required message.
\<close>

theorem suggestions_empty_job_list_is_not_resume_required:
  "\<not> falsy (Some ''u9'') \<and> map_of (resumes example_db) ''u9'' = None
   \<and> postSuggestions example_env_four example_db (Some ''u9'') (Some []) =
        ((400, Message ''User ID and available jobs are required.''), [])
   \<and> fst (postSuggestions example_env_four example_db (Some ''u9'') (Some [])) \<noteq>
        (404, Message ''Please upload your resume first for personalized recommendations.'')"
  by (simp add: postSuggestions_def falsy_def example_db_def)

text \<open>
  Claim C6, amended. Each of the three generation operations, asked with a candidate
  identifier that is not empty (and, for the recommendations, with a list of jobs that is not
  empty) for a candidate who has no resume document or whose resume text is empty, answers
  with its 404 resume-required message, and has sent no request to the generative-language
  service.
\<close>

theorem resume_required_before_generation:
  assumes "\<not> falsy uid"
    and "map_of (resumes d) (the uid) = None
         \<or> (\<exists>r. map_of (resumes d) (the uid) = Some r \<and> resumeText r = [])"
  shows "postCoverletter e d uid jobTitle jobDescription companyName =
           ((404, Message ''Please upload your resume first to generate a cover letter.''), [])
       \<and> postInterview e d uid jobTitle jobDescription =
           ((404, Message ''Please upload your resume first to generate interview questions.''), [])
       \<and> (allJobs = Some js \<and> js \<noteq> [] \<longrightarrow>
            postSuggestions e d uid allJobs =
              ((404, Message ''Please upload your resume first for personalized recommendations.''),
               []))"
proof (intro conjI impI)
  show "postCoverletter e d uid jobTitle jobDescription companyName =
           ((404, Message ''Please upload your resume first to generate a cover letter.''), [])"
    unfolding postCoverletter_def using assms(1) by (simp add: no_resume_text_cases [OF assms(2)])
  show "postInterview e d uid jobTitle jobDescription =
           ((404, Message ''Please upload your resume first to generate interview questions.''), [])"
    unfolding postInterview_def using assms(1) by (simp add: no_resume_text_cases [OF assms(2)])
  assume "allJobs = Some js \<and> js \<noteq> []"
  then show "postSuggestions e d uid allJobs =
              ((404, Message ''Please upload your resume first for personalized recommendations.''),
               [])"
    unfolding postSuggestions_def using assms(1) by (simp add: no_resume_text_cases [OF assms(2)])
qed

theorem resume_required_before_generation_witness:
  "\<not> falsy (Some ''u9'') \<and> map_of (resumes example_db) ''u9'' = None
   \<and> example_allJobs \<noteq> []
   \<and> postCoverletter example_env_four example_db (Some ''u9'') (Some ''Developer'') None (Some ''Acme'') =
        ((404, Message ''Please upload your resume first to generate a cover letter.''), [])
   \<and> postInterview example_env_four example_db (Some ''u9'') (Some ''Developer'') None =
        ((404, Message ''Please upload your resume first to generate interview questions.''), [])
   \<and> postSuggestions example_env_four example_db (Some ''u9'') (Some example_allJobs) =
        ((404, Message ''Please upload your resume first for personalized recommendations.''), [])"
proof -
  have 1: "\<not> falsy (Some ''u9'')" by (simp add: falsy_def)
  have n: "map_of (resumes example_db) ''u9'' = None" by (simp add: example_db_def)
  then have 2: "map_of (resumes example_db) (the (Some ''u9'')) = None
         \<or> (\<exists>r. map_of (resumes example_db) (the (Some ''u9'')) = Some r \<and> resumeText r = [])"
    by simp
  have 3: "example_allJobs \<noteq> []" by (simp add: example_allJobs_def)
  from resume_required_before_generation [OF 1 2, of example_env_four "Some ''Developer''" None
      "Some ''Acme''" "Some example_allJobs" example_allJobs] 1 n 3
  show ?thesis by simp
qed

lemma postSuggestions_invalid:
  assumes "falsy uid \<or> allJobs = None \<or> the allJobs = []"
  shows "postSuggestions e d uid allJobs =
           ((400, Message ''User ID and available jobs are required.''), [])"
  using assms by (simp add: postSuggestions_def)

lemma postSuggestions_no_resume:
  assumes "\<not> falsy uid" and "allJobs = Some js" and "js \<noteq> []"
    and "map_of (resumes d) (the uid) = None
         \<or> (\<exists>r. map_of (resumes d) (the uid) = Some r \<and> resumeText r = [])"
  shows "postSuggestions e d uid allJobs =
           ((404, Message ''Please upload your resume first for personalized recommendations.''), [])"
  unfolding postSuggestions_def using assms(1-3) by (simp add: no_resume_text_cases [OF assms(4)])

lemma postSuggestions_generation_failed:
  assumes "\<not> falsy uid" and "allJobs = Some js" and "js \<noteq> []"
    and "map_of (resumes d) (the uid) = Some resumeDoc" and "resumeText resumeDoc \<noteq> []"
    and "generateGeminiContent e suggestions_systemPrompt
           (suggestions_userQuery (resumeText resumeDoc) js) = (Inl err, sent)"
  shows "postSuggestions e d uid allJobs =
           ((500, Message ''Failed to fetch suggestions via AI.''), sent)"
  using assms by (simp add: postSuggestions_def)

lemma message_is_no_list:
  assumes "r = ((c, Message m), sent)" and "fst r = (200, SuggestionsBody ids)"
  shows False
proof -
  from assms have "(c, Message m) = (200, SuggestionsBody ids)" by (metis fst_conv)
  then show False by simp
qed

lemma example_generation_four:
  "generateGeminiContent example_env_four suggestions_systemPrompt
     (suggestions_userQuery ''React and Node'' example_allJobs)
   = (Inr (example_four_text @ [CHR 0x0A]),
      [(suggestions_systemPrompt, suggestions_userQuery ''React and Node'' example_allJobs)])"
  by (simp add: generateGeminiContent_def example_env_four_def)

lemma example_parse_four:
  "JSON_parse example_env_four (String_trim (example_four_text @ [CHR 0x0A])) = Some (JArray example_four_ids)"
  by code_simp

lemma example_suggestions_four:
  "postSuggestions example_env_four example_db (Some ''u2'') (Some example_allJobs) =
     ((200, SuggestionsBody example_four_ids),
      [(suggestions_systemPrompt, suggestions_userQuery ''React and Node'' example_allJobs)])"
proof -
  have 1: "\<not> falsy (Some ''u2'')" by (simp add: falsy_def)
  have 3: "example_allJobs \<noteq> []" by (simp add: example_allJobs_def)
  have 4: "map_of (resumes example_db) (the (Some ''u2'')) =
        Some \<lparr>userId = ''u2'', resumeText = ''React and Node'', uploadedAt = ''t2'', filePath = ''f2''\<rparr>"
    by (simp add: example_resume_u2)
  have 5: "resumeText \<lparr>userId = ''u2'', resumeText = ''React and Node'', uploadedAt = ''t2'', filePath = ''f2''\<rparr> \<noteq> []"
    by simp
  have 6: "generateGeminiContent example_env_four suggestions_systemPrompt
     (suggestions_userQuery (resumeText \<lparr>userId = ''u2'', resumeText = ''React and Node'', uploadedAt = ''t2'', filePath = ''f2''\<rparr>) example_allJobs)
   = (Inr (example_four_text @ [CHR 0x0A]),
      [(suggestions_systemPrompt, suggestions_userQuery ''React and Node'' example_allJobs)])"
    by (simp add: example_generation_four)
  show ?thesis
    by (simp add: postSuggestions_after_generation [OF 1 refl 3 4 5 6] example_parse_four)
qed

text \<open>
  Claim C8 as it is stated fails: the handler sends back whatever array the service's text
  parses to. For a text with four identifiers, none of them of a listed job, the answer is
  the success with these four.
\<close>

theorem suggestions_four_unlisted_ids:
  "fst (postSuggestions example_env_four example_db (Some ''u2'') (Some example_allJobs)) =
     (200, SuggestionsBody example_four_ids)
   \<and> example_four_ids \<noteq> []
   \<and> \<not> length example_four_ids \<le> 3
   \<and> set example_four_ids \<inter> JString ` job_id ` set example_allJobs = {}"
  by (simp add: example_suggestions_four) (simp add: example_four_ids_def example_allJobs_def)

text \<open>
  Claim C8, amended. Every successful answer of the job-recommendation operation with a list
  that is not empty carries exactly the array that the service's trimmed text parses to. The
  handler checks neither the length of the array nor that its elements are identifiers of the
  listed jobs; three identifiers of the listed jobs are what the system prompt asks the
  service for.
\<close>

theorem suggestions_are_the_parsed_array:
  assumes "fst (postSuggestions e d uid allJobs) = (200, SuggestionsBody ids)" and "ids \<noteq> []"
  shows "\<exists>js resumeDoc jsonResponse sent.
           \<not> falsy uid \<and> allJobs = Some js \<and> js \<noteq> []
           \<and> map_of (resumes d) (the uid) = Some resumeDoc \<and> resumeText resumeDoc \<noteq> []
           \<and> generateGeminiContent e suggestions_systemPrompt
                (suggestions_userQuery (resumeText resumeDoc) js) = (Inr jsonResponse, sent)
           \<and> JSON_parse e (String_trim jsonResponse) = Some (JArray ids)"
proof -
  have valid: "\<not> (falsy uid \<or> allJobs = None \<or> the allJobs = [])"
  proof
    assume "falsy uid \<or> allJobs = None \<or> the allJobs = []"
    then have "postSuggestions e d uid allJobs =
                 ((400, Message ''User ID and available jobs are required.''), [])"
      by (rule postSuggestions_invalid)
    then show False using assms(1) by (rule message_is_no_list)
  qed
  then have u: "\<not> falsy uid" by blast
  from valid have an: "allJobs \<noteq> None" and ne: "the allJobs \<noteq> []" by simp_all
  from an obtain js where j1: "allJobs = Some js" by blast
  with ne have j2: "js \<noteq> []" by simp
  note js = j1 j2
  have has: "\<not> (map_of (resumes d) (the uid) = None
         \<or> (\<exists>r. map_of (resumes d) (the uid) = Some r \<and> resumeText r = []))"
  proof
    assume "map_of (resumes d) (the uid) = None
         \<or> (\<exists>r. map_of (resumes d) (the uid) = Some r \<and> resumeText r = [])"
    then have "postSuggestions e d uid allJobs =
                 ((404, Message ''Please upload your resume first for personalized recommendations.''), [])"
      by (rule postSuggestions_no_resume [OF u js])
    then show False using assms(1) by (rule message_is_no_list)
  qed
  then obtain resumeDoc where r: "map_of (resumes d) (the uid) = Some resumeDoc"
    and t: "resumeText resumeDoc \<noteq> []" by auto
  obtain res sent where g: "generateGeminiContent e suggestions_systemPrompt
                (suggestions_userQuery (resumeText resumeDoc) js) = (res, sent)"
    by (cases "generateGeminiContent e suggestions_systemPrompt
                (suggestions_userQuery (resumeText resumeDoc) js)") blast
  have "\<exists>jsonResponse. res = Inr jsonResponse"
  proof (cases res)
    case (Inl err)
    with g have "generateGeminiContent e suggestions_systemPrompt
                (suggestions_userQuery (resumeText resumeDoc) js) = (Inl err, sent)"
      by simp
    then have "postSuggestions e d uid allJobs =
                 ((500, Message ''Failed to fetch suggestions via AI.''), sent)"
      by (rule postSuggestions_generation_failed [OF u js r t])
    then have False using assms(1) by (rule message_is_no_list)
    then show ?thesis ..
  next
    case (Inr jsonResponse)
    then show ?thesis by blast
  qed
  then obtain jsonResponse where res: "res = Inr jsonResponse" by blast
  note eq = postSuggestions_after_generation [OF u js r t g [unfolded res]]
  have "JSON_parse e (String_trim jsonResponse) = Some (JArray ids)"
  proof (cases "JSON_parse e (String_trim jsonResponse)")
    case None
    with assms eq show ?thesis by simp
  next
    case (Some v)
    with assms eq show ?thesis by (cases v) simp_all
  qed
  with u js r t g res show ?thesis by blast
qed

theorem suggestions_are_the_parsed_array_witness:
  "fst (postSuggestions example_env_four example_db (Some ''u2'') (Some example_allJobs)) =
     (200, SuggestionsBody example_four_ids)
   \<and> example_four_ids \<noteq> []
   \<and> (\<exists>jsonResponse. JSON_parse example_env_four (String_trim jsonResponse) = Some (JArray example_four_ids))"
proof -
  have a: "fst (postSuggestions example_env_four example_db (Some ''u2'') (Some example_allJobs)) =
     (200, SuggestionsBody example_four_ids)"
    by (simp add: example_suggestions_four)
  have b: "example_four_ids \<noteq> []" by (simp add: example_four_ids_def)
  from suggestions_are_the_parsed_array [OF a b] a b show ?thesis by blast
qed


section \<open>Properties of the text extraction\<close>

lemma String_trim_Nil_iff: "String_trim s = [] \<longleftrightarrow> (\<forall>c \<in> set s. isWhiteSpace c)"
proof
  assume "String_trim s = []"
  then have "\<forall>c \<in> set (dropWhile isWhiteSpace s). isWhiteSpace c"
    by (simp add: String_trim_def)
  then have "dropWhile isWhiteSpace s = []"
    by (metis hd_dropWhile hd_in_set)
  then show "\<forall>c \<in> set s. isWhiteSpace c" by simp
next
  assume "\<forall>c \<in> set s. isWhiteSpace c"
  then have "dropWhile isWhiteSpace s = []" by simp
  then have "rev (dropWhile isWhiteSpace (rev (dropWhile isWhiteSpace s))) = rev (dropWhile isWhiteSpace (rev []))"
    by (rule arg_cong)
  then show "String_trim s = []" by (simp add: String_trim_def)
qed

lemma requireText_blank: "(\<forall>c \<in> set text. isWhiteSpace c) \<Longrightarrow> requireText text = Inl ExtractionFailed"
  by (simp add: requireText_def String_trim_Nil_iff)

lemma requireText_visible: "\<not> (\<forall>c \<in> set text. isWhiteSpace c) \<Longrightarrow> requireText text = Inr text"
  by (simp add: requireText_def String_trim_Nil_iff)

lemma requireText_Inr: "requireText t = Inr text \<Longrightarrow> \<not> (\<forall>c \<in> set text. isWhiteSpace c)"
  by (auto simp: requireText_def String_trim_Nil_iff split: if_splits)

lemma extractText_Inr:
  assumes "extractText lib fileMimeType dataBuffer = Inr text"
  shows "\<not> (\<forall>c \<in> set text. isWhiteSpace c)"
proof -
  from assms obtain t where "requireText t = Inr text"
    by (auto simp: extractText_def split: if_splits sum.splits)
  then show ?thesis by (rule requireText_Inr)
qed

lemma postUpload_failure:
  assumes "\<not> falsy uid" and "extractText lib (mimetype f) (fileBytes f) = Inl err"
  shows "postUpload lib now d uid (Some f) =
           ((500, Message (''Processing failed: '' @ message err)), d, [path f])"
  using assms by (simp add: postUpload_def)

text \<open>
  Claim C7 as it is stated fails for an empty payload sent as a PDF: the parser throws on it,
  the handler's \<^verbatim>\<open>catch\<close> answers with the parser's message, and the error is not the
  \<open>ExtractionFailed\<close> of line 246.
\<close>

theorem empty_pdf_fails_with_parser_error:
  "pdf_parse example_library (fileBytes example_empty_pdf) =
     Inl ''PDFDocument: stream must have data''
   \<and> fileBytes example_empty_pdf = []
   \<and> extractText example_library (mimetype example_empty_pdf) (fileBytes example_empty_pdf) =
       Inl (ParserError ''PDFDocument: stream must have data'')
   \<and> extractText example_library (mimetype example_empty_pdf) (fileBytes example_empty_pdf) \<noteq>
       Inl ExtractionFailed
   \<and> postUpload example_library ''2026-01-01T00:00:00.000Z'' example_db (Some ''u1'')
         (Some example_empty_pdf) =
       ((500, Message ''Processing failed: PDFDocument: stream must have data''),
        example_db, [''uploads/u1-2.pdf''])"
  by (simp add: example_library_def example_empty_pdf_def extractText_def postUpload_def falsy_def)

text \<open>
  Claim C7, amended. The extraction fails with \<open>UnsupportedFormat\<close> for every media type
  but the three it knows. For these, it fails with \<open>ExtractionFailed\<close> whenever the text the
  parser or the decoder returns has no character that is not white space, as the decoding of
  the empty buffer has none, and it returns any other text as it is; it never succeeds with a
  text of white space only. Where the PDF or DOCX parser throws instead of returning a text,
  as on an empty payload, the extraction fails with the parser's own error. For
  \<^verbatim>\<open>text/plain\<close> a text with a visible character is returned as the decoder gives it, so
  \<open>Hello World\<close> comes back as \<open>Hello World\<close>. In the handler, a failed extraction is the
  500 answer with the error's message, the store unchanged and the uploaded file removed.
\<close>

theorem extraction_contract:
  "(fileMimeType \<noteq> ''application/pdf''
      \<and> fileMimeType \<noteq> ''application/vnd.openxmlformats-officedocument.wordprocessingml.document''
      \<and> fileMimeType \<noteq> ''text/plain''
      \<longrightarrow> extractText lib fileMimeType dataBuffer = Inl UnsupportedFormat)
   \<and> (pdf_parse lib dataBuffer = Inr text \<and> (\<forall>c \<in> set text. isWhiteSpace c)
      \<longrightarrow> extractText lib ''application/pdf'' dataBuffer = Inl ExtractionFailed)
   \<and> (mammoth_extractRawText lib dataBuffer = Inr text \<and> (\<forall>c \<in> set text. isWhiteSpace c)
      \<longrightarrow> extractText lib
            ''application/vnd.openxmlformats-officedocument.wordprocessingml.document'' dataBuffer
          = Inl ExtractionFailed)
   \<and> ((\<forall>c \<in> set (toString_utf8 lib dataBuffer). isWhiteSpace c)
      \<longrightarrow> extractText lib ''text/plain'' dataBuffer = Inl ExtractionFailed)
   \<and> (toString_utf8 lib [] = [] \<longrightarrow> extractText lib ''text/plain'' [] = Inl ExtractionFailed)
   \<and> (\<not> (\<forall>c \<in> set (toString_utf8 lib dataBuffer). isWhiteSpace c)
      \<longrightarrow> extractText lib ''text/plain'' dataBuffer = Inr (toString_utf8 lib dataBuffer))
   \<and> (toString_utf8 lib ''Hello World'' = ''Hello World''
      \<longrightarrow> extractText lib ''text/plain'' ''Hello World'' = Inr ''Hello World'')
   \<and> (extractText lib fileMimeType dataBuffer = Inr text \<longrightarrow> \<not> (\<forall>c \<in> set text. isWhiteSpace c))
   \<and> (\<not> falsy uid \<and> extractText lib (mimetype f) (fileBytes f) = Inl err
      \<longrightarrow> postUpload lib now d uid (Some f) =
            ((500, Message (''Processing failed: '' @ message err)), d, [path f]))
   \<and> (pdf_parse lib dataBuffer = Inl m
      \<longrightarrow> extractText lib ''application/pdf'' dataBuffer = Inl (ParserError m))
   \<and> (mammoth_extractRawText lib dataBuffer = Inl m
      \<longrightarrow> extractText lib
            ''application/vnd.openxmlformats-officedocument.wordprocessingml.document'' dataBuffer
          = Inl (ParserError m))
   \<and> (pdf_parse lib dataBuffer = Inr text \<and> \<not> (\<forall>c \<in> set text. isWhiteSpace c)
      \<longrightarrow> extractText lib ''application/pdf'' dataBuffer = Inr text)
   \<and> (mammoth_extractRawText lib dataBuffer = Inr text \<and> \<not> (\<forall>c \<in> set text. isWhiteSpace c)
      \<longrightarrow> extractText lib
            ''application/vnd.openxmlformats-officedocument.wordprocessingml.document'' dataBuffer
          = Inr text)"
proof (intro conjI impI)
  assume "fileMimeType \<noteq> ''application/pdf''
      \<and> fileMimeType \<noteq> ''application/vnd.openxmlformats-officedocument.wordprocessingml.document''
      \<and> fileMimeType \<noteq> ''text/plain''"
  then show "extractText lib fileMimeType dataBuffer = Inl UnsupportedFormat"
    by (simp add: extractText_def)
next
  assume "pdf_parse lib dataBuffer = Inr text \<and> (\<forall>c \<in> set text. isWhiteSpace c)"
  then show "extractText lib ''application/pdf'' dataBuffer = Inl ExtractionFailed"
    by (simp add: extractText_def requireText_blank)
next
  assume "mammoth_extractRawText lib dataBuffer = Inr text \<and> (\<forall>c \<in> set text. isWhiteSpace c)"
  then show "extractText lib
            ''application/vnd.openxmlformats-officedocument.wordprocessingml.document'' dataBuffer
          = Inl ExtractionFailed"
    by (simp add: extractText_def requireText_blank)
next
  assume "\<forall>c \<in> set (toString_utf8 lib dataBuffer). isWhiteSpace c"
  then show "extractText lib ''text/plain'' dataBuffer = Inl ExtractionFailed"
    by (simp add: extractText_def requireText_blank)
next
  assume "toString_utf8 lib [] = []"
  then show "extractText lib ''text/plain'' [] = Inl ExtractionFailed"
    by (simp add: extractText_def requireText_blank)
next
  assume "\<not> (\<forall>c \<in> set (toString_utf8 lib dataBuffer). isWhiteSpace c)"
  then show "extractText lib ''text/plain'' dataBuffer = Inr (toString_utf8 lib dataBuffer)"
    by (simp add: extractText_def requireText_visible)
next
  assume h: "toString_utf8 lib ''Hello World'' = ''Hello World''"
  have "\<not> (\<forall>c \<in> set ''Hello World''. isWhiteSpace c)" by (simp add: isWhiteSpace_def)
  then have "requireText ''Hello World'' = Inr ''Hello World''" by (rule requireText_visible)
  with h show "extractText lib ''text/plain'' ''Hello World'' = Inr ''Hello World''"
    by (simp add: extractText_def)
next
  assume "extractText lib fileMimeType dataBuffer = Inr text"
  then have "\<not> (\<forall>c \<in> set text. isWhiteSpace c)" by (rule extractText_Inr)
  then show "\<not> (\<forall>c \<in> set text. isWhiteSpace c)" .
next
  assume "\<not> falsy uid \<and> extractText lib (mimetype f) (fileBytes f) = Inl err"
  then show "postUpload lib now d uid (Some f) =
            ((500, Message (''Processing failed: '' @ message err)), d, [path f])"
    by (simp add: postUpload_failure)
next
  assume "pdf_parse lib dataBuffer = Inl m"
  then show "extractText lib ''application/pdf'' dataBuffer = Inl (ParserError m)"
    by (simp add: extractText_def)
next
  assume "mammoth_extractRawText lib dataBuffer = Inl m"
  then show "extractText lib
            ''application/vnd.openxmlformats-officedocument.wordprocessingml.document'' dataBuffer
          = Inl (ParserError m)"
    by (simp add: extractText_def)
next
  assume "pdf_parse lib dataBuffer = Inr text \<and> \<not> (\<forall>c \<in> set text. isWhiteSpace c)"
  then show "extractText lib ''application/pdf'' dataBuffer = Inr text"
    by (simp add: extractText_def requireText_visible)
next
  assume "mammoth_extractRawText lib dataBuffer = Inr text \<and> \<not> (\<forall>c \<in> set text. isWhiteSpace c)"
  then show "extractText lib
            ''application/vnd.openxmlformats-officedocument.wordprocessingml.document'' dataBuffer
          = Inr text"
    by (simp add: extractText_def requireText_visible)
qed

theorem extraction_contract_witness:
  "mimetype example_file \<noteq> ''application/pdf''
   \<and> mimetype example_file \<noteq> ''application/vnd.openxmlformats-officedocument.wordprocessingml.document''
   \<and> mimetype example_file \<noteq> ''text/plain''
   \<and> extractText example_library (mimetype example_file) (fileBytes example_file) = Inl UnsupportedFormat
   \<and> toString_utf8 example_library ''Hello World'' = ''Hello World''
   \<and> extractText example_library ''text/plain'' ''Hello World'' = Inr ''Hello World''
   \<and> toString_utf8 example_library [] = []
   \<and> extractText example_library ''text/plain'' [] = Inl ExtractionFailed
   \<and> toString_utf8 example_library [CHR '' '', CHR 0x09, CHR 0x0A] = [CHR '' '', CHR 0x09, CHR 0x0A]
   \<and> extractText example_library ''text/plain'' [CHR '' '', CHR 0x09, CHR 0x0A] = Inl ExtractionFailed
   \<and> pdf_parse example_library [] = Inl ''PDFDocument: stream must have data''
   \<and> extractText example_library ''application/pdf'' [] =
       Inl (ParserError ''PDFDocument: stream must have data'')
   \<and> \<not> falsy (Some ''u1'')
   \<and> postUpload example_library ''2026-01-01T00:00:00.000Z'' example_db (Some ''u1'') (Some example_file) =
        ((500, Message ''Processing failed: Unsupported file type. Please use PDF, DOCX, or TXT.''),
         example_db, [''uploads/u1-1.png''])"
proof -
  note inst = extraction_contract [of "mimetype example_file" example_library "fileBytes example_file"
      "''  ''" "Some ''u1''" example_file UnsupportedFormat "''2026-01-01T00:00:00.000Z''" example_db]
  note inst1 = extraction_contract [of "''text/plain''" example_library
      "[CHR '' '', CHR 0x09, CHR 0x0A]" "''  ''"]
  note inst0 = extraction_contract [of "''text/plain''" example_library "[]" "''  ''" "Some ''u1''"
      example_file UnsupportedFormat "''2026-01-01T00:00:00.000Z''" example_db
      "''PDFDocument: stream must have data''"]
  have m: "mimetype example_file \<noteq> ''application/pdf''
   \<and> mimetype example_file \<noteq> ''application/vnd.openxmlformats-officedocument.wordprocessingml.document''
   \<and> mimetype example_file \<noteq> ''text/plain''"
    by (simp add: example_file_def)
  have d: "toString_utf8 example_library ''Hello World'' = ''Hello World''"
    by (simp add: example_library_def)
  have e: "toString_utf8 example_library [] = []" by (simp add: example_library_def)
  have p: "toString_utf8 example_library [CHR '' '', CHR 0x09, CHR 0x0A] = [CHR '' '', CHR 0x09, CHR 0x0A]"
    by (simp add: example_library_def)
  have w: "\<forall>c \<in> set (toString_utf8 example_library [CHR '' '', CHR 0x09, CHR 0x0A]). isWhiteSpace c"
    by (simp add: example_library_def isWhiteSpace_def)
  have q: "pdf_parse example_library [] = Inl ''PDFDocument: stream must have data''"
    by (simp add: example_library_def)
  have u: "\<not> falsy (Some ''u1'')" by (simp add: falsy_def)
  from inst m have 1: "extractText example_library (mimetype example_file) (fileBytes example_file) = Inl UnsupportedFormat"
    by blast
  from inst d have 2: "extractText example_library ''text/plain'' ''Hello World'' = Inr ''Hello World''"
    by blast
  from inst e have 3: "extractText example_library ''text/plain'' [] = Inl ExtractionFailed"
    by blast
  from inst1 w have 4: "extractText example_library ''text/plain'' [CHR '' '', CHR 0x09, CHR 0x0A] = Inl ExtractionFailed"
    by blast
  from inst0 q have 6: "extractText example_library ''application/pdf'' [] =
       Inl (ParserError ''PDFDocument: stream must have data'')"
    by blast
  from inst u 1 have "postUpload example_library ''2026-01-01T00:00:00.000Z'' example_db (Some ''u1'') (Some example_file) =
        ((500, Message (''Processing failed: '' @ message UnsupportedFormat)), example_db, [path example_file])"
    by blast
  then have 5: "postUpload example_library ''2026-01-01T00:00:00.000Z'' example_db (Some ''u1'') (Some example_file) =
        ((500, Message ''Processing failed: Unsupported file type. Please use PDF, DOCX, or TXT.''),
         example_db, [''uploads/u1-1.png''])"
    by (simp add: example_file_def)
  from m 1 d 2 e 3 p 4 q 6 u 5 show ?thesis by blast
qed

end
